theory Spec2Isabelle
  imports Complex_Main "HOL-Library.Sublist"
begin

section \<open>The wire-level value tree (package tftypes)\<close>

text \<open>
  \<^verbatim>\<open>state.go\<close> works on \<^verbatim>\<open>tftypes.Value\<close>, \<^verbatim>\<open>tftypes.AttributePath\<close>,
  \<^verbatim>\<open>tftypes.NewValue\<close>, \<^verbatim>\<open>tftypes.WalkAttributePath\<close> and \<^verbatim>\<open>tftypes.Transform\<close>.
  They belong to the library terraform-plugin-go and are not among the source files.

  Modelled from the spec: the typed value tree of sections 3 and 4.1 (a node is null,
  unknown or known; a known node is a primitive scalar, an ordered list of nodes or a
  keyed map of nodes; every node carries its wire type), with the walk and the
  transform of section 4.1, in the shape \<^verbatim>\<open>state.go\<close> uses them: a value is a type
  with a payload, as \<^verbatim>\<open>NewValue(type, payload)\<close> builds it, and the transform takes
  the tree and a callback only, as in \<^verbatim>\<open>Transform(s.Raw, transformFunc)\<close>. The model
  covers the primitive types, lists, maps and objects; sets, tuples and the dynamic
  pseudo-type are left out.
\<close>

datatype tftype = tfString | tfNumber | tfBool | tfList tftype | tfMap tftype
  | tfObject "(string \<times> tftype) list"

text \<open>
  The payload of a value: \<^verbatim>\<open>nil\<close>, the unknown marker, a scalar, a slice
  \<^verbatim>\<open>[]Value\<close> or a map \<^verbatim>\<open>map[string]Value\<close> (an association list; a Go map has
  each key once, which \<open>wf_Value\<close> below records).
\<close>

datatype 'v payload = Null | Unknown | PString string | PNumber rat | PBool bool
  | PSlice "'v list" | PMap "(string \<times> 'v) list"

datatype Value = Value (Type: tftype) (payload: "Value payload")

datatype step = AttributeName string | ElementKeyString string | ElementKeyInt int

text \<open>
  An attribute path is the sequence of its steps; \<^verbatim>\<open>NewAttributePath()\<close> is \<open>[]\<close>,
  \<^verbatim>\<open>p.WithAttributeName(k)\<close> is \<open>p @ [AttributeName k]\<close> and \<^verbatim>\<open>p.Equal(q)\<close> is
  equality of the step sequences.
\<close>

type_synonym AttributePath = "step list"

text \<open>
  Go errors, kept as terms instead of rendered strings: \<open>Errorf_w s e\<close> is
  \<^verbatim>\<open>fmt.Errorf(s + "%w", e)\<close>, \<open>StillRemains p e\<close> is
  \<^verbatim>\<open>fmt.Errorf("%v still remains in the path: %w", p, e)\<close>, \<open>AttributePathError p e\<close>
  is \<^verbatim>\<open>p.NewError(e)\<close>.
\<close>

datatype error =
    ErrInvalidStep
  | New string
  | Errorf_w string error
  | StillRemains AttributePath error
  | AttributePathError AttributePath error
  | InvalidTransformType tftype tftype
  | CannotUseAs tftype
  | NilDereference

text \<open>A call either panics or returns.\<close>

datatype 'a outcome = Panic error | Returned 'a

definition IsNull :: "Value \<Rightarrow> bool" where
  "IsNull v = (payload v = Null)"

definition IsKnown :: "Value \<Rightarrow> bool" where
  "IsKnown v = (payload v \<noteq> Unknown)"

text \<open>
  \<^verbatim>\<open>newValue(t, val)\<close> accepts \<^verbatim>\<open>nil\<close> and unknown at every type, and any other
  payload only when it has the shape of \<open>t\<close>: the elements of a list or map have the
  element type, an object has exactly the attributes of its type, each of its type.
\<close>

fun fits :: "tftype \<Rightarrow> Value payload \<Rightarrow> bool" where
  "fits t Null = True"
| "fits t Unknown = True"
| "fits tfString (PString s) = True"
| "fits tfNumber (PNumber n) = True"
| "fits tfBool (PBool b) = True"
| "fits (tfList et) (PSlice l) = list_all (\<lambda>v. Type v = et) l"
| "fits (tfMap et) (PMap m) = list_all (\<lambda>kv. Type (snd kv) = et) m"
| "fits (tfObject ats) (PMap m) =
     (list_all (\<lambda>kv. map_of ats (fst kv) = Some (Type (snd kv))) m \<and>
      list_all (\<lambda>kt. map_of m (fst kt) \<noteq> None) ats)"
| "fits t pl = False"

definition newValue :: "tftype \<Rightarrow> Value payload \<Rightarrow> error + Value" where
  "newValue t val = (if fits t val then Inr (Value t val) else Inl (CannotUseAs t))"

text \<open>\<^verbatim>\<open>NewValue\<close> panics where \<^verbatim>\<open>newValue\<close> returns an error.\<close>

definition NewValue :: "tftype \<Rightarrow> Value payload \<Rightarrow> Value outcome" where
  "NewValue t val = (case newValue t val of Inl err \<Rightarrow> Panic err | Inr v \<Rightarrow> Returned v)"

text \<open>
  The values a Go program can hold: every node fits its type and every map has each
  key once.
\<close>

fun wf_Value :: "Value \<Rightarrow> bool" where
  "wf_Value (Value ty pl) =
     (fits ty pl \<and>
      (case pl of
         PSlice l \<Rightarrow> list_all wf_Value l
       | PMap m \<Rightarrow> distinct (map fst m) \<and> list_all (\<lambda>kv. wf_Value (snd kv)) m
       | _ \<Rightarrow> True))"

subsection \<open>Walking a path\<close>

text \<open>
  One step into a value: a null or unknown value has no children; an attribute name
  steps into an object, a string key into a map, an integer key into a list.
\<close>

fun ApplyTerraform5AttributePathStep :: "Value \<Rightarrow> step \<Rightarrow> error + Value" where
  "ApplyTerraform5AttributePathStep (Value ty pl) s =
     (if \<not> IsKnown (Value ty pl) \<or> IsNull (Value ty pl) then Inl ErrInvalidStep
      else case s of
        AttributeName n \<Rightarrow>
          (case ty of
             tfObject ats \<Rightarrow>
               (case pl of
                  PMap m \<Rightarrow> (case map_of m n of None \<Rightarrow> Inl ErrInvalidStep | Some res \<Rightarrow> Inr res)
                | _ \<Rightarrow> Inl (CannotUseAs ty))
           | _ \<Rightarrow> Inl ErrInvalidStep)
      | ElementKeyString k \<Rightarrow>
          (case ty of
             tfMap et \<Rightarrow>
               (case pl of
                  PMap m \<Rightarrow> (case map_of m k of None \<Rightarrow> Inl ErrInvalidStep | Some res \<Rightarrow> Inr res)
                | _ \<Rightarrow> Inl (CannotUseAs ty))
           | _ \<Rightarrow> Inl ErrInvalidStep)
      | ElementKeyInt i \<Rightarrow>
          (case ty of
             tfList et \<Rightarrow>
               (case pl of
                  PSlice l \<Rightarrow>
                    (if i < 0 \<or> int (length l) \<le> i then Inl ErrInvalidStep else Inr (l ! nat i))
                | _ \<Rightarrow> Inl (CannotUseAs ty))
           | _ \<Rightarrow> Inl ErrInvalidStep))"

text \<open>
  \<^verbatim>\<open>WalkAttributePath\<close> returns the value reached, the steps that remain and the
  error of the step that failed.
\<close>

fun WalkAttributePath :: "Value \<Rightarrow> AttributePath \<Rightarrow> Value \<times> AttributePath \<times> error option" where
  "WalkAttributePath v [] = (v, [], None)"
| "WalkAttributePath v (s # rest) =
     (case ApplyTerraform5AttributePathStep v s of
        Inl err \<Rightarrow> (v, s # rest, Some err)
      | Inr next \<Rightarrow> WalkAttributePath next rest)"

subsection \<open>Transforming a tree\<close>

text \<open>
  \<^verbatim>\<open>Transform(val, cb)\<close> is given no path: the callback of \<^verbatim>\<open>SetAttribute\<close>
  compares the path of each node it is handed with the path to set. So the transform
  calls \<open>cb\<close> on every node with the node's path, children before their parent, and
  replaces each node by what \<open>cb\<close> returns. A null or unknown node has no children to
  visit. The first error stops the traversal, and what is returned with it is the
  aggregate as it was. A callback must keep the type of the node it replaces. An
  aggregate is put together again from its transformed children, which have the types
  of the children they replace; that step is taken to succeed.

  The callback of \<^verbatim>\<open>SetAttribute\<close> is a closure that appends to the diagnostics of
  its caller, so a callback takes and returns a state \<open>'st\<close>, threaded through the
  traversal in visiting order (a slice in index order; a Go map has no order, the model
  visits the association list from its head).
\<close>

type_synonym 'st callback =
  "AttributePath \<Rightarrow> Value \<Rightarrow> 'st \<Rightarrow> ((Value \<times> error option) \<times> 'st) outcome"

fun transform_slice ::
  "(nat \<Rightarrow> Value \<Rightarrow> 'st \<Rightarrow> ((Value \<times> error option) \<times> 'st) outcome) \<Rightarrow> nat \<Rightarrow> Value list \<Rightarrow> 'st
   \<Rightarrow> (((nat \<times> error) + Value list) \<times> 'st) outcome" where
  "transform_slice f pos [] st = Returned (Inr [], st)"
| "transform_slice f pos (el # rest) st =
     (case f pos el st of
        Panic m \<Rightarrow> Panic m
      | Returned ((newEl, Some err), st') \<Rightarrow> Returned (Inl (pos, err), st')
      | Returned ((newEl, None), st') \<Rightarrow>
          (case transform_slice f (Suc pos) rest st' of
             Panic m \<Rightarrow> Panic m
           | Returned (Inl e, st'') \<Rightarrow> Returned (Inl e, st'')
           | Returned (Inr elems, st'') \<Rightarrow> Returned (Inr (newEl # elems), st'')))"

fun transform_map ::
  "(string \<Rightarrow> Value \<Rightarrow> 'st \<Rightarrow> ((Value \<times> error option) \<times> 'st) outcome) \<Rightarrow> (string \<times> Value) list \<Rightarrow> 'st
   \<Rightarrow> (((string \<times> error) + (string \<times> Value) list) \<times> 'st) outcome" where
  "transform_map f [] st = Returned (Inr [], st)"
| "transform_map f ((k, v) # rest) st =
     (case f k v st of
        Panic m \<Rightarrow> Panic m
      | Returned ((newVal, Some err), st') \<Rightarrow> Returned (Inl (k, err), st')
      | Returned ((newVal, None), st') \<Rightarrow>
          (case transform_map f rest st' of
             Panic m \<Rightarrow> Panic m
           | Returned (Inl e, st'') \<Rightarrow> Returned (Inl e, st'')
           | Returned (Inr elems, st'') \<Rightarrow> Returned (Inr ((k, newVal) # elems), st'')))"

lemma transform_slice_cong [fundef_cong]:
  "l = l' \<Longrightarrow> pos = pos' \<Longrightarrow> st = st' \<Longrightarrow>
   (\<And>i el s. el \<in> set l' \<Longrightarrow> f i el s = g i el s) \<Longrightarrow>
   transform_slice f pos l st = transform_slice g pos' l' st'"
  by (induction l' arbitrary: l pos pos' st st')
     (auto split: outcome.splits option.splits sum.splits prod.splits)

lemma transform_map_cong [fundef_cong]:
  "m = m' \<Longrightarrow> st = st' \<Longrightarrow>
   (\<And>k v s. (k, v) \<in> set m' \<Longrightarrow> f k v s = g k v s) \<Longrightarrow>
   transform_map f m st = transform_map g m' st'"
  by (induction m' arbitrary: m st st')
     (auto split: outcome.splits option.splits sum.splits prod.splits)

text \<open>The end of a visit: the callback on the node itself, then the type check.\<close>

definition transform_node :: "AttributePath \<Rightarrow> Value \<Rightarrow> 'st callback \<Rightarrow> 'st
    \<Rightarrow> ((Value \<times> error option) \<times> 'st) outcome" where
  "transform_node path val cb st =
     (case cb path val st of
        Panic m \<Rightarrow> Panic m
      | Returned ((res, Some err), st') \<Rightarrow> Returned ((res, Some (AttributePathError path err)), st')
      | Returned ((res, None), st') \<Rightarrow>
          (if Type res \<noteq> Type val
           then Returned ((val, Some (AttributePathError path
                  (InvalidTransformType (Type val) (Type res)))), st')
           else Returned ((res, None), st')))"

fun transform :: "AttributePath \<Rightarrow> Value \<Rightarrow> 'st callback \<Rightarrow> 'st
    \<Rightarrow> ((Value \<times> error option) \<times> 'st) outcome" where
  "transform path (Value ty pl) cb st =
     (if IsNull (Value ty pl) \<or> \<not> IsKnown (Value ty pl)
      then transform_node path (Value ty pl) cb st
      else case ty of
        tfList et \<Rightarrow>
          (case pl of
             PSlice l \<Rightarrow>
               (if l = [] then transform_node path (Value ty pl) cb st
                else case transform_slice
                       (\<lambda>pos el. transform (path @ [ElementKeyInt (int pos)]) el cb) 0 l st of
                   Panic m \<Rightarrow> Panic m
                 | Returned (Inl (pos, err), st') \<Rightarrow>
                     Returned ((Value ty pl,
                       Some (AttributePathError (path @ [ElementKeyInt (int pos)]) err)), st')
                 | Returned (Inr elems, st') \<Rightarrow>
                     transform_node path (Value ty (PSlice elems)) cb st')
           | _ \<Rightarrow> Returned ((Value ty pl, Some (CannotUseAs ty)), st))
      | tfMap et \<Rightarrow>
          (case pl of
             PMap m \<Rightarrow>
               (if m = [] then transform_node path (Value ty pl) cb st
                else case transform_map
                       (\<lambda>k v. transform (path @ [ElementKeyString k]) v cb) m st of
                   Panic e \<Rightarrow> Panic e
                 | Returned (Inl (k, err), st') \<Rightarrow>
                     Returned ((Value ty pl,
                       Some (AttributePathError (path @ [ElementKeyString k]) err)), st')
                 | Returned (Inr elems, st') \<Rightarrow>
                     transform_node path (Value ty (PMap elems)) cb st')
           | _ \<Rightarrow> Returned ((Value ty pl, Some (CannotUseAs ty)), st))
      | tfObject ats \<Rightarrow>
          (case pl of
             PMap m \<Rightarrow>
               (if m = [] then transform_node path (Value ty pl) cb st
                else case transform_map
                       (\<lambda>k v. transform (path @ [AttributeName k]) v cb) m st of
                   Panic e \<Rightarrow> Panic e
                 | Returned (Inl (k, err), st') \<Rightarrow>
                     Returned ((Value ty pl,
                       Some (AttributePathError (path @ [AttributeName k]) err)), st')
                 | Returned (Inr elems, st') \<Rightarrow>
                     transform_node path (Value ty (PMap elems)) cb st')
           | _ \<Rightarrow> Returned ((Value ty pl, Some (CannotUseAs ty)), st))
      | _ \<Rightarrow> transform_node path (Value ty pl) cb st)"

definition Transform :: "Value \<Rightarrow> 'st callback \<Rightarrow> 'st \<Rightarrow> ((Value \<times> error option) \<times> 'st) outcome" where
  "Transform val cb st = transform [] val cb st"

section \<open>Diagnostics (package diag)\<close>

text \<open>
  Modelled from the spec: package \<^verbatim>\<open>diag\<close> is not among the source files. Section 3:
  a diagnostic has a severity, Error or Warning, a summary, a detail and an optional
  attribute path; a diagnostics collection is ordered and append-only, and an entry of
  Error severity is what \<^verbatim>\<open>HasError\<close> reports.
\<close>

datatype Severity = SeverityError | SeverityWarning

text \<open>
  The detail of a diagnostic: a text, or a text followed by \<^verbatim>\<open>err.Error()\<close>.
\<close>

datatype detail = Text string | TextError string error

record Diagnostic =
  Severity :: Severity
  Summary :: string
  Detail :: detail
  Path :: "AttributePath option"

type_synonym Diagnostics = "Diagnostic list"

definition NewErrorDiagnostic :: "string \<Rightarrow> detail \<Rightarrow> Diagnostic" where
  "NewErrorDiagnostic summary detail =
     \<lparr>Severity = SeverityError, Summary = summary, Detail = detail, Path = None\<rparr>"

definition NewAttributeErrorDiagnostic :: "AttributePath \<Rightarrow> string \<Rightarrow> detail \<Rightarrow> Diagnostic" where
  "NewAttributeErrorDiagnostic path summary detail =
     \<lparr>Severity = SeverityError, Summary = summary, Detail = detail, Path = Some path\<rparr>"

definition NewAttributeWarningDiagnostic :: "AttributePath \<Rightarrow> string \<Rightarrow> detail \<Rightarrow> Diagnostic" where
  "NewAttributeWarningDiagnostic path summary detail =
     \<lparr>Severity = SeverityWarning, Summary = summary, Detail = detail, Path = Some path\<rparr>"

fun HasError :: "Diagnostics \<Rightarrow> bool" where
  "HasError [] = False"
| "HasError (d # ds) = (Severity d = SeverityError \<or> HasError ds)"

definition Append :: "Diagnostics \<Rightarrow> Diagnostics \<Rightarrow> Diagnostics" where
  "Append diags new = diags @ new"

definition AddError :: "Diagnostics \<Rightarrow> string \<Rightarrow> detail \<Rightarrow> Diagnostics" where
  "AddError diags summary detail = Append diags [NewErrorDiagnostic summary detail]"

definition AddAttributeError :: "Diagnostics \<Rightarrow> AttributePath \<Rightarrow> string \<Rightarrow> detail \<Rightarrow> Diagnostics" where
  "AddAttributeError diags path summary detail =
     Append diags [NewAttributeErrorDiagnostic path summary detail]"

section \<open>Attribute types, schema and the reflective collaborators\<close>

text \<open>
  Modelled from the spec: the interfaces \<^verbatim>\<open>attr.Type\<close>, \<^verbatim>\<open>attr.TypeWithValidate\<close>
  and \<^verbatim>\<open>attr.Value\<close> are not among the source files. Section 4.2: an attribute type
  reports its wire type, converts a wire value into a typed value or fails, and
  optionally validates a wire value at a path; \<open>Validate = None\<close> is a type that does
  not implement \<^verbatim>\<open>attr.TypeWithValidate\<close>. \<open>'av\<close> is the type of the typed values
  (\<^verbatim>\<open>attr.Value\<close>); a conversion may return the nil \<^verbatim>\<open>attr.Value\<close> with no error,
  which is \<open>Inr None\<close>.
\<close>

record 'av attr_Type =
  TerraformType :: tftype
  ValueFromTerraform :: "Value \<Rightarrow> error + 'av option"
  Validate :: "(Value \<Rightarrow> AttributePath \<Rightarrow> Diagnostics) option"

text \<open>
  Modelled from the spec: \<^verbatim>\<open>Schema\<close> and its methods are not among the source files.
  The schema is taken as the table of the three methods \<^verbatim>\<open>state.go\<close> calls:
  \<^verbatim>\<open>AttributeTypeAtPath\<close> (the declared type at a path, or an error for a path the
  schema does not have), \<^verbatim>\<open>AttributeType\<close> (the type of the whole document) and
  \<^verbatim>\<open>TerraformType\<close> (its wire type).
\<close>

record 'av Schema =
  AttributeTypeAtPath :: "AttributePath \<Rightarrow> error + 'av attr_Type"
  AttributeType :: "'av attr_Type"
  Schema_TerraformType :: tftype

text \<open>
  A Go \<^verbatim>\<open>interface{}\<close> argument: the nil interface, or a dynamic value, which may be a
  nil pointer of some pointer type (named by its type), or any other host value \<open>'g\<close>.
  Only the first is \<^verbatim>\<open>== nil\<close>.
\<close>

datatype 'g iface = NilInterface | NilPointer string | Boxed 'g

text \<open>
  Modelled from the spec: \<^verbatim>\<open>reflect.FromValue\<close>, \<^verbatim>\<open>ValueAs\<close> and the method
  \<^verbatim>\<open>ToTerraformValue\<close> of \<^verbatim>\<open>attr.Value\<close> are not among the source files; the
  operations take them as parameters. Section 4.3: \<^verbatim>\<open>FromValue\<close> turns a host value
  into a typed value of an attribute type, with diagnostics; \<^verbatim>\<open>ValueAs\<close> populates a
  target \<open>'h\<close> from a typed value, with diagnostics; \<^verbatim>\<open>ToTerraformValue\<close> gives the
  wire payload of a typed value, or an error.
\<close>

record ('av, 'g, 'h) collaborators =
  FromValue :: "'av attr_Type \<Rightarrow> 'g iface \<Rightarrow> AttributePath \<Rightarrow> 'av option \<times> Diagnostics"
  ToTerraformValue :: "'av \<Rightarrow> error + Value payload"
  ValueAs :: "'av \<Rightarrow> 'h \<Rightarrow> 'h \<times> Diagnostics"

section \<open>State (state.go)\<close>

record 'av State =
  Raw :: Value
  Schema :: "'av Schema"

definition readAttributeText :: string where
  "readAttributeText =
     ''An unexpected error was encountered trying to read an attribute from the state. This is always an error in the provider. Please report the following to the provider developer:''
     @ [CHR 0x0A, CHR 0x0A]"

definition writeStateText :: string where
  "writeStateText =
     ''An unexpected error was encountered trying to write the state. This is always an error in the provider. Please report the following to the provider developer:''
     @ [CHR 0x0A, CHR 0x0A]"

definition writeAttributeText :: string where
  "writeAttributeText =
     ''An unexpected error was encountered trying to write an attribute to the state. This is always an error in the provider. Please report the following to the provider developer:''
     @ [CHR 0x0A, CHR 0x0A]"

text \<open>
  \<^verbatim>\<open>terraformValueAtPath\<close>: every result of the walk is a \<^verbatim>\<open>tftypes.Value\<close> here, so
  the branch for another result type cannot be taken.
\<close>

definition terraformValueAtPath :: "'av State \<Rightarrow> AttributePath \<Rightarrow> error + Value" where
  "terraformValueAtPath s path =
     (case WalkAttributePath (Raw s) path of
        (rawValue, remaining, Some err) \<Rightarrow> Inl (StillRemains remaining err)
      | (rawValue, remaining, None) \<Rightarrow> Inr rawValue)"

definition getAttributeValue :: "'av State \<Rightarrow> AttributePath \<Rightarrow> 'av option \<times> Diagnostics" where
  "getAttributeValue s path =
     (case AttributeTypeAtPath (Schema s) path of
        Inl err \<Rightarrow>
          (None, AddAttributeError [] path ''State Read Error''
             (TextError readAttributeText
                (Errorf_w ''error getting attribute type in schema: '' err)))
      | Inr attrType \<Rightarrow>
          (if IsNull (Raw s) then (None, [])
           else (case terraformValueAtPath s path of
             Inl err \<Rightarrow>
               (None, AddAttributeError [] path ''State Read Error''
                  (TextError readAttributeText err))
           | Inr tfValue \<Rightarrow>
               (let diags = (case Validate attrType of
                              Some validate \<Rightarrow> Append [] (validate tfValue path)
                            | None \<Rightarrow> [])
                in if Validate attrType \<noteq> None \<and> HasError diags then (None, diags)
                   else (case ValueFromTerraform attrType tfValue of
                     Inl err \<Rightarrow>
                       (None, AddAttributeError diags path ''State Read Error''
                          (TextError readAttributeText err))
                   | Inr attrValue \<Rightarrow> (attrValue, diags))))))"

text \<open>
  The loop of \<^verbatim>\<open>GetAttribute\<close> over the diagnostics of \<^verbatim>\<open>ValueAs\<close>, one entry.
\<close>

definition reattribute :: "AttributePath \<Rightarrow> Diagnostic \<Rightarrow> Diagnostic" where
  "reattribute path valueAsDiag =
     (if Severity valueAsDiag = SeverityError
      then NewAttributeErrorDiagnostic path (Summary valueAsDiag) (Detail valueAsDiag)
      else if Severity valueAsDiag = SeverityWarning
      then NewAttributeWarningDiagnostic path (Summary valueAsDiag) (Detail valueAsDiag)
      else valueAsDiag)"

text \<open>
  \<^verbatim>\<open>GetAttribute\<close> writes through the pointer \<open>target\<close>; the model returns the
  target after the call with the diagnostics.
\<close>

definition GetAttribute :: "('av, 'g, 'h) collaborators \<Rightarrow> 'av State \<Rightarrow> AttributePath \<Rightarrow> 'h
    \<Rightarrow> 'h \<times> Diagnostics" where
  "GetAttribute env s path target =
     (case getAttributeValue s path of
        (attrValue, diags) \<Rightarrow>
          (if HasError diags then (target, diags)
           else (case attrValue of
             None \<Rightarrow>
               (target, AddAttributeError diags path ''State Read Error''
                  (Text (readAttributeText @
                     ''Missing attribute value, however no error was returned. Preventing the panic from this situation.'')))
           | Some av \<Rightarrow>
               (case ValueAs env av target of
                  (target', valueAsDiags) \<Rightarrow>
                    (target', Append diags (map (reattribute path) valueAsDiags))))))"

text \<open>
  \<^verbatim>\<open>Set\<close>, \<^verbatim>\<open>SetAttribute\<close> and \<^verbatim>\<open>RemoveResource\<close> have a pointer receiver: the
  model returns the state after the call. A panic leaves no result.
\<close>

definition Set :: "('av, 'g, 'h) collaborators \<Rightarrow> 'av State \<Rightarrow> 'g iface
    \<Rightarrow> ('av State \<times> Diagnostics) outcome" where
  "Set env s val =
     (if val = NilInterface
      then Returned (s,
             [NewErrorDiagnostic ''State Read Error''
                (TextError writeStateText
                   (New ''cannot set nil as entire state; to remove a resource from state, call State.RemoveResource, instead''))])
      else (case FromValue env (AttributeType (Schema s)) val [] of
        (newStateAttrValue, diags) \<Rightarrow>
          (if HasError diags then Returned (s, diags)
           else (case newStateAttrValue of
             None \<Rightarrow> Panic NilDereference
           | Some av \<Rightarrow>
               (case ToTerraformValue env av of
                  Inl err \<Rightarrow>
                    Returned (s, AddError diags ''State Write Error''
                      (TextError writeStateText
                         (Errorf_w ''error running ToTerraformValue on state: '' err)))
                | Inr newStateVal \<Rightarrow>
                    (case NewValue (TerraformType (AttributeType (Schema s))) newStateVal of
                       Panic e \<Rightarrow> Panic e
                     | Returned newState \<Rightarrow> Returned (s\<lparr>Raw := newState\<rparr>, diags)))))))"

text \<open>
  The closure \<^verbatim>\<open>transformFunc\<close> of \<^verbatim>\<open>SetAttribute\<close>. It captures \<open>path\<close>,
  \<open>attrType\<close>, \<open>newTfVal\<close> and the variable \<open>diags\<close>, which it updates: \<open>diags\<close> is
  the state of the callback.
\<close>

definition transformFunc :: "'av attr_Type \<Rightarrow> AttributePath \<Rightarrow> Value payload \<Rightarrow> Diagnostics callback" where
  "transformFunc attrType path newTfVal p v diags =
     (if p = path then
        (case NewValue (TerraformType attrType) newTfVal of
           Panic e \<Rightarrow> Panic e
         | Returned tfVal \<Rightarrow>
             (case Validate attrType of
                Some validate \<Rightarrow>
                  (let diags' = Append diags (validate tfVal path)
                   in if HasError diags' then Returned ((v, None), diags')
                      else Returned ((tfVal, None), diags'))
              | None \<Rightarrow> Returned ((tfVal, None), diags)))
      else Returned ((v, None), diags))"

text \<open>
  \<^verbatim>\<open>SetAttribute\<close>, over the function it calls as \<^verbatim>\<open>tftypes.Transform\<close>: the first
  argument \<open>Transform'\<close> stands for the library function, and \<open>Transform\<close> above is
  its model.
\<close>

definition SetAttribute ::
  "(Value \<Rightarrow> Diagnostics callback \<Rightarrow> Diagnostics \<Rightarrow> ((Value \<times> error option) \<times> Diagnostics) outcome)
    \<Rightarrow> ('av, 'g, 'h) collaborators \<Rightarrow> 'av State \<Rightarrow> AttributePath \<Rightarrow> 'g iface
    \<Rightarrow> ('av State \<times> Diagnostics) outcome" where
  "SetAttribute Transform' env s path val =
     (case AttributeTypeAtPath (Schema s) path of
        Inl err \<Rightarrow>
          Returned (s, AddAttributeError [] path ''State Write Error''
            (TextError writeAttributeText
               (Errorf_w ''error getting attribute type in schema: '' err)))
      | Inr attrType \<Rightarrow>
          (case FromValue env attrType val path of
             (newVal, newValDiags) \<Rightarrow>
               (let diags = Append [] newValDiags
                in if HasError diags then Returned (s, diags)
                  else (case newVal of
                    None \<Rightarrow> Panic NilDereference
                  | Some nv \<Rightarrow>
                      (case ToTerraformValue env nv of
                         Inl err \<Rightarrow>
                           Returned (s, AddAttributeError diags path ''State Write Error''
                             (TextError writeAttributeText
                                (Errorf_w ''error running ToTerraformValue on new state value: '' err)))
                       | Inr newTfVal \<Rightarrow>
                           (case Transform' (Raw s) (transformFunc attrType path newTfVal) diags of
                              Panic e \<Rightarrow> Panic e
                            | Returned ((raw', Some err), diags') \<Rightarrow>
                                Returned (s\<lparr>Raw := raw'\<rparr>,
                                  AddAttributeError diags' path ''State Write Error''
                                    (TextError writeAttributeText err))
                            | Returned ((raw', None), diags') \<Rightarrow>
                                Returned (s\<lparr>Raw := raw'\<rparr>, diags')))))))"

definition RemoveResource :: "'av State \<Rightarrow> 'av State outcome" where
  "RemoveResource s =
     (case NewValue (Schema_TerraformType (Schema s)) Null of
        Panic e \<Rightarrow> Panic e
      | Returned v \<Rightarrow> Returned (s\<lparr>Raw := v\<rparr>))"

section \<open>Test fixtures (config_test.go)\<close>

text \<open>
  The fixtures of the tests: a schema with the one required attribute \<open>name\<close>, the
  tree \<open>{name: "namevalue"}\<close>, and the test attribute types, of which one validates
  with an error and one with a warning. Typed values are represented by the wire value
  they were converted from.
\<close>

definition TestErrorDiagnostic :: "AttributePath \<Rightarrow> Diagnostic" where
  "TestErrorDiagnostic path =
     NewAttributeErrorDiagnostic path ''Error Diagnostic'' (Text ''This is an error.'')"

definition TestWarningDiagnostic :: "AttributePath \<Rightarrow> Diagnostic" where
  "TestWarningDiagnostic path =
     NewAttributeWarningDiagnostic path ''Warning Diagnostic'' (Text ''This is a warning.'')"

definition StringType :: "Value attr_Type" where
  "StringType = \<lparr>TerraformType = tfString, ValueFromTerraform = (\<lambda>v. Inr (Some v)), Validate = None\<rparr>"

definition StringTypeWithValidateError :: "Value attr_Type" where
  "StringTypeWithValidateError =
     StringType\<lparr>Validate := Some (\<lambda>v path. [TestErrorDiagnostic path])\<rparr>"

definition StringTypeWithValidateWarning :: "Value attr_Type" where
  "StringTypeWithValidateWarning =
     StringType\<lparr>Validate := Some (\<lambda>v path. [TestWarningDiagnostic path])\<rparr>"

definition testObjectType :: "Value attr_Type \<Rightarrow> Value attr_Type" where
  "testObjectType t =
     \<lparr>TerraformType = tfObject [(''name'', TerraformType t)],
      ValueFromTerraform = (\<lambda>v. Inr (Some v)), Validate = None\<rparr>"

definition testSchema :: "Value attr_Type \<Rightarrow> Value Schema" where
  "testSchema t =
     \<lparr>AttributeTypeAtPath =
        (\<lambda>p. if p = [AttributeName ''name''] then Inr t
             else Inl (New ''path not found in schema'')),
      AttributeType = testObjectType t,
      Schema_TerraformType = tfObject [(''name'', TerraformType t)]\<rparr>"

definition testRaw :: Value where
  "testRaw = Value (tfObject [(''name'', tfString)])
     (PMap [(''name'', Value tfString (PString ''namevalue''))])"

definition testState :: "Value attr_Type \<Rightarrow> Value State" where
  "testState t = \<lparr>Raw = testRaw, Schema = testSchema t\<rparr>"

text \<open>
  Stand-ins for the reflective collaborators: a host value is a wire value, a target is
  an optional wire value, and a nil host value is refused with an error diagnostic.
\<close>

definition testEnv :: "(Value, Value, Value option) collaborators" where
  "testEnv =
     \<lparr>FromValue = (\<lambda>t v p. case v of
          Boxed x \<Rightarrow> (Some x, [])
        | _ \<Rightarrow> (None, [NewAttributeErrorDiagnostic p ''Value Conversion Error''
                         (Text ''cannot use a nil value'')])),
      ToTerraformValue = (\<lambda>v. Inr (payload v)),
      ValueAs = (\<lambda>av target. (Some av, []))\<rparr>"

text \<open>
  A second fixture, with a sibling and a list: the attributes \<open>name\<close> and \<open>tags\<close>,
  the elements of \<open>tags\<close> of the type that validates with a warning.
\<close>

definition testListType :: "Value attr_Type" where
  "testListType =
     \<lparr>TerraformType = tfList tfString, ValueFromTerraform = (\<lambda>v. Inr (Some v)), Validate = None\<rparr>"

definition testSchemaTags :: "Value Schema" where
  "testSchemaTags =
     \<lparr>AttributeTypeAtPath =
        (\<lambda>p. case p of
           [AttributeName n] \<Rightarrow>
             if n = ''name'' then Inr StringType
             else if n = ''tags'' then Inr testListType
             else Inl (New ''path not found in schema'')
         | [AttributeName n, ElementKeyInt i] \<Rightarrow>
             if n = ''tags'' then Inr StringTypeWithValidateWarning
             else Inl (New ''path not found in schema'')
         | _ \<Rightarrow> Inl (New ''path not found in schema'')),
      AttributeType =
        \<lparr>TerraformType = tfObject [(''name'', tfString), (''tags'', tfList tfString)],
         ValueFromTerraform = (\<lambda>v. Inr (Some v)), Validate = None\<rparr>,
      Schema_TerraformType = tfObject [(''name'', tfString), (''tags'', tfList tfString)]\<rparr>"

definition testRawTags :: "Value \<Rightarrow> Value" where
  "testRawTags second =
     Value (tfObject [(''name'', tfString), (''tags'', tfList tfString)])
       (PMap [(''name'', Value tfString (PString ''namevalue'')),
              (''tags'', Value (tfList tfString)
                 (PSlice [Value tfString (PString ''a''), second]))])"

definition testStateTags :: "Value State" where
  "testStateTags = \<lparr>Raw = testRawTags (Value tfString (PString ''b'')), Schema = testSchemaTags\<rparr>"

text \<open>
  A stand-in whose \<^verbatim>\<open>ValueAs\<close> refuses every target, as the test
  \<open>incompatible-type\<close> has it for a boolean target of a string attribute: one
  diagnostic of Error severity without a path, the target untouched.
\<close>

definition testEnvIncompatible :: "(Value, Value, Value option) collaborators" where
  "testEnvIncompatible =
     testEnv\<lparr>ValueAs := (\<lambda>av target.
        (target, [NewErrorDiagnostic ''Value Conversion Error''
                    (Text ''cannot unmarshal tftypes.String into *bool, expected boolean'')]))\<rparr>"

text \<open>
  A transform that fails and returns another tree with its error, to run
  \<^verbatim>\<open>SetAttribute\<close> on its error branch.
\<close>

definition failingTransform ::
  "Value \<Rightarrow> Diagnostics callback \<Rightarrow> Diagnostics \<Rightarrow> ((Value \<times> error option) \<times> Diagnostics) outcome" where
  "failingTransform val cb st =
     Returned ((Value tfString Unknown, Some (New ''transform failed'')), st)"

section \<open>The two fixed diagnostics of Set and GetAttribute\<close>

text \<open>The diagnostic \<^verbatim>\<open>Set\<close> returns for the nil interface.\<close>

definition nilStateDiagnostic :: Diagnostic where
  "nilStateDiagnostic = NewErrorDiagnostic ''State Read Error''
     (TextError writeStateText
        (New ''cannot set nil as entire state; to remove a resource from state, call State.RemoveResource, instead''))"

text \<open>
  The diagnostic \<^verbatim>\<open>GetAttribute\<close> adds when \<^verbatim>\<open>getAttributeValue\<close> returns no
  value and no error.
\<close>

definition missingValueDiagnostic :: "AttributePath \<Rightarrow> Diagnostic" where
  "missingValueDiagnostic path = NewAttributeErrorDiagnostic path ''State Read Error''
     (Text (readAttributeText @
        ''Missing attribute value, however no error was returned. Preventing the panic from this situation.''))"

section \<open>Auxiliary notions\<close>

text \<open>
  The lookup of \<^verbatim>\<open>terraformValueAtPath\<close> on a value: \<open>terraformValueAtPath s path\<close> is
  \<open>valueAt (Raw s) path\<close>.
\<close>

definition valueAt :: "Value \<Rightarrow> AttributePath \<Rightarrow> error + Value" where
  "valueAt v path =
     (case WalkAttributePath v path of
        (rawValue, remaining, Some err) \<Rightarrow> Inl (StillRemains remaining err)
      | (rawValue, remaining, None) \<Rightarrow> Inr rawValue)"

text \<open>Replacing the value of one key of an association list.\<close>

definition replace_key :: "string \<Rightarrow> Value \<Rightarrow> (string \<times> Value) list \<Rightarrow> (string \<times> Value) list" where
  "replace_key k c m = map (\<lambda>kv. (fst kv, if fst kv = k then c else snd kv)) m"

text \<open>Two paths are apart when neither is a prefix of the other.\<close>

definition apart :: "AttributePath \<Rightarrow> AttributePath \<Rightarrow> bool" where
  "apart p q = (\<not> prefix p q \<and> \<not> prefix q p)"

text \<open>
  The diagnostics of \<^verbatim>\<open>Validate\<close> on a wire value at a path, none for a type without
  \<^verbatim>\<open>Validate\<close>.
\<close>

definition validated :: "'av attr_Type \<Rightarrow> Value \<Rightarrow> AttributePath \<Rightarrow> Diagnostics" where
  "validated attrType tfVal path =
     (case Validate attrType of Some validate \<Rightarrow> validate tfVal path | None \<Rightarrow> [])"

section \<open>Auxiliary facts\<close>

lemma HasError_append: "HasError (xs @ ys) = (HasError xs \<or> HasError ys)"
  by (induction xs) auto

lemma NewValue_fits: "fits t pl \<Longrightarrow> NewValue t pl = Returned (Value t pl)"
  by (simp add: NewValue_def newValue_def)

lemma NewValue_Null: "NewValue t Null = Returned (Value t Null)"
  by (simp add: NewValue_def newValue_def)

subsection \<open>Callbacks that return the node they are given\<close>

lemma transform_node_keeps:
  assumes "\<And>q v st. \<exists>st'. cb q v st = Returned ((v, None), st')"
  shows "\<exists>st'. transform_node p v cb st = Returned ((v, None), st')"
proof -
  from assms obtain st' where "cb p v st = Returned ((v, None), st')" by blast
  then show ?thesis by (simp add: transform_node_def)
qed

lemma transform_slice_keeps:
  assumes "\<And>i el s. el \<in> set l \<Longrightarrow> \<exists>e st'. f i el s = Returned ((el, e), st')"
  shows "(\<exists>st'. transform_slice f pos l st = Returned (Inr l, st')) \<or>
         (\<exists>pe st'. transform_slice f pos l st = Returned (Inl pe, st'))"
  using assms
proof (induction l arbitrary: pos st)
  case Nil
  then show ?case by simp
next
  case (Cons el rest)
  from Cons.prems obtain e st1 where f: "f pos el st = Returned ((el, e), st1)"
    by (meson list.set_intros(1))
  show ?case
  proof (cases e)
    case (Some err)
    with f show ?thesis by simp
  next
    case None
    have "(\<exists>st'. transform_slice f (Suc pos) rest st1 = Returned (Inr rest, st')) \<or>
          (\<exists>pe st'. transform_slice f (Suc pos) rest st1 = Returned (Inl pe, st'))"
      by (rule Cons.IH) (simp add: Cons.prems)
    with f None show ?thesis by auto
  qed
qed

lemma transform_map_keeps:
  assumes "\<And>k v s. (k, v) \<in> set m \<Longrightarrow> \<exists>e st'. f k v s = Returned ((v, e), st')"
  shows "(\<exists>st'. transform_map f m st = Returned (Inr m, st')) \<or>
         (\<exists>ke st'. transform_map f m st = Returned (Inl ke, st'))"
  using assms
proof (induction m arbitrary: st)
  case Nil
  then show ?case by simp
next
  case (Cons kv rest)
  obtain k v where kv: "kv = (k, v)" by (cases kv)
  from Cons.prems kv obtain e st1 where f: "f k v st = Returned ((v, e), st1)"
    by (meson list.set_intros(1))
  show ?case
  proof (cases e)
    case (Some err)
    with f kv show ?thesis by simp
  next
    case None
    have "(\<exists>st'. transform_map f rest st1 = Returned (Inr rest, st')) \<or>
          (\<exists>ke st'. transform_map f rest st1 = Returned (Inl ke, st'))"
      by (rule Cons.IH) (simp add: Cons.prems)
    with f None kv show ?thesis by auto
  qed
qed

lemma transform_keeps:
  "(\<And>q v st. \<exists>st'. cb q v st = Returned ((v, None), st')) \<Longrightarrow>
   \<exists>e st'. transform p v cb st = Returned ((v, e), st')"
proof (induction p v cb st rule: transform.induct)
  case (1 path ty pl cb st)
  note cb = "1.prems"
  have node: "\<exists>st'. transform_node path x cb s = Returned ((x, None), st')" for x s
    by (rule transform_node_keeps) (rule cb)
  show ?case
  proof (cases "IsNull (Value ty pl) \<or> \<not> IsKnown (Value ty pl)")
    case True
    with node [of "Value ty pl" st] show ?thesis by auto
  next
    case known: False
    show ?thesis
    proof (cases ty)
      case (tfList et)
      show ?thesis
      proof (cases pl)
        case (PSlice l)
        show ?thesis
        proof (cases "l = []")
          case True
          with node [of "Value ty pl" st] known tfList PSlice show ?thesis by auto
        next
          case False
          have "\<exists>e st'. transform (path @ [ElementKeyInt (int i)]) el cb s = Returned ((el, e), st')"
            if "el \<in> set l" for i el s
            using "1.IH"(1) [OF known tfList PSlice False that] cb by blast
          from transform_slice_keeps [of l "\<lambda>pos el. transform (path @ [ElementKeyInt (int pos)]) el cb" 0 st, OF this]
          show ?thesis
          proof
            assume "\<exists>st'. transform_slice (\<lambda>pos el. transform (path @ [ElementKeyInt (int pos)]) el cb) 0 l st
                = Returned (Inr l, st')"
            then obtain st1 where "transform_slice (\<lambda>pos el. transform (path @ [ElementKeyInt (int pos)]) el cb) 0 l st
                = Returned (Inr l, st1)" ..
            with node [of "Value ty (PSlice l)" st1] known tfList PSlice False show ?thesis by auto
          next
            assume "\<exists>pe st'. transform_slice (\<lambda>pos el. transform (path @ [ElementKeyInt (int pos)]) el cb) 0 l st
                = Returned (Inl pe, st')"
            then obtain pe st1 where "transform_slice (\<lambda>pos el. transform (path @ [ElementKeyInt (int pos)]) el cb) 0 l st
                = Returned (Inl pe, st1)" by blast
            with known tfList PSlice False show ?thesis by (cases pe) auto
          qed
        qed
      qed (use known tfList in auto)
    next
      case (tfMap et)
      show ?thesis
      proof (cases pl)
        case (PMap m)
        show ?thesis
        proof (cases "m = []")
          case True
          with node [of "Value ty pl" st] known tfMap PMap show ?thesis by auto
        next
          case False
          have "\<exists>e st'. transform (path @ [ElementKeyString k]) v cb s = Returned ((v, e), st')"
            if "(k, v) \<in> set m" for k v s
            using "1.IH"(2) [OF known tfMap PMap False that] cb by blast
          from transform_map_keeps [of m "\<lambda>k v. transform (path @ [ElementKeyString k]) v cb" st, OF this]
          show ?thesis
          proof
            assume "\<exists>st'. transform_map (\<lambda>k v. transform (path @ [ElementKeyString k]) v cb) m st
                = Returned (Inr m, st')"
            then obtain st1 where "transform_map (\<lambda>k v. transform (path @ [ElementKeyString k]) v cb) m st
                = Returned (Inr m, st1)" ..
            with node [of "Value ty (PMap m)" st1] known tfMap PMap False show ?thesis by auto
          next
            assume "\<exists>ke st'. transform_map (\<lambda>k v. transform (path @ [ElementKeyString k]) v cb) m st
                = Returned (Inl ke, st')"
            then obtain ke st1 where "transform_map (\<lambda>k v. transform (path @ [ElementKeyString k]) v cb) m st
                = Returned (Inl ke, st1)" by blast
            with known tfMap PMap False show ?thesis by (cases ke) auto
          qed
        qed
      qed (use known tfMap in auto)
    next
      case (tfObject ats)
      show ?thesis
      proof (cases pl)
        case (PMap m)
        show ?thesis
        proof (cases "m = []")
          case True
          with node [of "Value ty pl" st] known tfObject PMap show ?thesis by auto
        next
          case False
          have "\<exists>e st'. transform (path @ [AttributeName k]) v cb s = Returned ((v, e), st')"
            if "(k, v) \<in> set m" for k v s
            using "1.IH"(3) [OF known tfObject PMap False that] cb by blast
          from transform_map_keeps [of m "\<lambda>k v. transform (path @ [AttributeName k]) v cb" st, OF this]
          show ?thesis
          proof
            assume "\<exists>st'. transform_map (\<lambda>k v. transform (path @ [AttributeName k]) v cb) m st
                = Returned (Inr m, st')"
            then obtain st1 where "transform_map (\<lambda>k v. transform (path @ [AttributeName k]) v cb) m st
                = Returned (Inr m, st1)" ..
            with node [of "Value ty (PMap m)" st1] known tfObject PMap False show ?thesis by auto
          next
            assume "\<exists>ke st'. transform_map (\<lambda>k v. transform (path @ [AttributeName k]) v cb) m st
                = Returned (Inl ke, st')"
            then obtain ke st1 where "transform_map (\<lambda>k v. transform (path @ [AttributeName k]) v cb) m st
                = Returned (Inl ke, st1)" by blast
            with known tfObject PMap False show ?thesis by (cases ke) auto
          qed
        qed
      qed (use known tfObject in auto)
    qed (use node [of "Value ty pl" st] known in auto)
  qed
qed

subsection \<open>Lookups\<close>

lemma terraformValueAtPath_valueAt: "terraformValueAtPath s path = valueAt (Raw s) path"
  by (simp add: terraformValueAtPath_def valueAt_def)

lemma valueAt_Nil: "valueAt v [] = Inr v"
  by (simp add: valueAt_def)

lemma valueAt_Cons:
  "valueAt v (s # rest) =
     (case ApplyTerraform5AttributePathStep v s of
        Inl err \<Rightarrow> Inl (StillRemains (s # rest) err)
      | Inr next \<Rightarrow> valueAt next rest)"
  by (simp add: valueAt_def split: sum.splits)

subsection \<open>Callbacks that change nothing away from one path\<close>

lemma transform_node_id:
  "cb p v st = Returned ((v, None), st) \<Longrightarrow> transform_node p v cb st = Returned ((v, None), st)"
  by (simp add: transform_node_def)

lemma transform_slice_id:
  "(\<And>i el s. el \<in> set l \<Longrightarrow> f i el s = Returned ((el, None), s)) \<Longrightarrow>
   transform_slice f pos l st = Returned (Inr l, st)"
  by (induction l arbitrary: pos) simp_all

lemma transform_map_id:
  "(\<And>k v s. (k, v) \<in> set m \<Longrightarrow> f k v s = Returned ((v, None), s)) \<Longrightarrow>
   transform_map f m st = Returned (Inr m, st)"
  by (induction m) auto

lemma fits_tfList: "fits (tfList et) pl \<Longrightarrow> pl = Null \<or> pl = Unknown \<or> (\<exists>l. pl = PSlice l)"
  by (cases pl) simp_all

lemma fits_tfMap: "fits (tfMap et) pl \<Longrightarrow> pl = Null \<or> pl = Unknown \<or> (\<exists>m. pl = PMap m)"
  by (cases pl) simp_all

lemma fits_tfObject: "fits (tfObject ats) pl \<Longrightarrow> pl = Null \<or> pl = Unknown \<or> (\<exists>m. pl = PMap m)"
  by (cases pl) simp_all

lemma transform_off_path:
  "wf_Value v \<Longrightarrow> (\<And>q x s. prefix pre q \<Longrightarrow> cb q x s = Returned ((x, None), s)) \<Longrightarrow>
   transform pre v cb st = Returned ((v, None), st)"
proof (induction pre v cb st rule: transform.induct)
  case (1 path ty pl cb st)
  note wf = "1.prems"(1) and cb = "1.prems"(2)
  have node: "transform_node path x cb s = Returned ((x, None), s)" for x s
    by (rule transform_node_id) (simp add: cb)
  show ?case
  proof (cases "IsNull (Value ty pl) \<or> \<not> IsKnown (Value ty pl)")
    case True
    with node show ?thesis by simp
  next
    case known: False
    then have pl: "pl \<noteq> Null" "pl \<noteq> Unknown" by (auto simp: IsNull_def IsKnown_def)
    show ?thesis
    proof (cases ty)
      case (tfList et)
      with wf pl obtain l where l: "pl = PSlice l" using fits_tfList by auto
      have "transform (path @ [ElementKeyInt (int i)]) el cb s = Returned ((el, None), s)"
        if "el \<in> set l" "l \<noteq> []" for i el s
      proof (rule "1.IH"(1) [OF known tfList l that(2) that(1)])
        from wf l that show "wf_Value el" by (simp add: list_all_iff)
        show "cb q x s = Returned ((x, None), s)" if "prefix (path @ [ElementKeyInt (int i)]) q" for q x s
          using that by (intro cb) (rule append_prefixD)
      qed
      then have "l \<noteq> [] \<Longrightarrow> transform_slice (\<lambda>pos el. transform (path @ [ElementKeyInt (int pos)]) el cb) 0 l st
          = Returned (Inr l, st)"
        by (intro transform_slice_id) simp
      with known tfList l node show ?thesis by simp
    next
      case (tfMap et)
      with wf pl obtain m where m: "pl = PMap m" using fits_tfMap by auto
      have "transform (path @ [ElementKeyString k]) v cb s = Returned ((v, None), s)"
        if "(k, v) \<in> set m" "m \<noteq> []" for k v s
      proof (rule "1.IH"(2) [OF known tfMap m that(2) that(1)])
        from wf m that show "wf_Value v" by (auto simp: list_all_iff)
        show "cb q x s = Returned ((x, None), s)" if "prefix (path @ [ElementKeyString k]) q" for q x s
          using that by (intro cb) (rule append_prefixD)
      qed
      then have "m \<noteq> [] \<Longrightarrow> transform_map (\<lambda>k v. transform (path @ [ElementKeyString k]) v cb) m st
          = Returned (Inr m, st)"
        by (intro transform_map_id) simp
      with known tfMap m node show ?thesis by simp
    next
      case (tfObject ats)
      with wf pl obtain m where m: "pl = PMap m" using fits_tfObject by auto
      have "transform (path @ [AttributeName k]) v cb s = Returned ((v, None), s)"
        if "(k, v) \<in> set m" "m \<noteq> []" for k v s
      proof (rule "1.IH"(3) [OF known tfObject m that(2) that(1)])
        from wf m that show "wf_Value v" by (auto simp: list_all_iff)
        show "cb q x s = Returned ((x, None), s)" if "prefix (path @ [AttributeName k]) q" for q x s
          using that by (intro cb) (rule append_prefixD)
      qed
      then have "m \<noteq> [] \<Longrightarrow> transform_map (\<lambda>k v. transform (path @ [AttributeName k]) v cb) m st
          = Returned (Inr m, st)"
        by (intro transform_map_id) simp
      with known tfObject m node show ?thesis by simp
    qed (use node known in auto)
  qed
qed

lemma transform_slice_id_pos:
  "(\<And>k s. k < length l \<Longrightarrow> f (pos + k) (l ! k) s = Returned ((l ! k, None), s)) \<Longrightarrow>
   transform_slice f pos l st = Returned (Inr l, st)"
proof (induction l arbitrary: pos)
  case Nil
  then show ?case by simp
next
  case (Cons el rest)
  have hd: "f pos el s = Returned ((el, None), s)" for s
    using Cons.prems [of 0 s] by simp
  have "transform_slice f (Suc pos) rest st = Returned (Inr rest, st)"
  proof (rule Cons.IH)
    show "f (Suc pos + k) (rest ! k) s = Returned ((rest ! k, None), s)" if "k < length rest" for k s
      using Cons.prems [of "Suc k" s] that by simp
  qed
  with hd show ?case by simp
qed

lemma transform_slice_at:
  assumes "j < length l"
    and "\<And>k s. k < length l \<Longrightarrow> k \<noteq> j \<Longrightarrow> f (pos + k) (l ! k) s = Returned ((l ! k, None), s)"
    and "f (pos + j) (l ! j) st0 = Returned ((c', None), st1)"
  shows "transform_slice f pos l st0 = Returned (Inr (l[j := c']), st1)"
  using assms
proof (induction l arbitrary: pos j)
  case Nil
  then show ?case by simp
next
  case (Cons el rest)
  show ?case
  proof (cases j)
    case 0
    have "transform_slice f (Suc pos) rest st1 = Returned (Inr rest, st1)"
    proof (rule transform_slice_id_pos)
      show "f (Suc pos + k) (rest ! k) s = Returned ((rest ! k, None), s)" if "k < length rest" for k s
        using Cons.prems(2) [of "Suc k" s] that 0 by simp
    qed
    with Cons.prems(3) 0 show ?thesis by simp
  next
    case (Suc j')
    have hd: "f pos el s = Returned ((el, None), s)" for s
      using Cons.prems(2) [of 0 s] Suc by simp
    have "transform_slice f (Suc pos) rest st0 = Returned (Inr (rest[j' := c']), st1)"
    proof (rule Cons.IH)
      from Cons.prems(1) Suc show "j' < length rest" by simp
      show "f (Suc pos + k) (rest ! k) s = Returned ((rest ! k, None), s)"
        if "k < length rest" "k \<noteq> j'" for k s
        using Cons.prems(2) [of "Suc k" s] that Suc by simp
      from Cons.prems(3) Suc show "f (Suc pos + j') (rest ! j') st0 = Returned ((c', None), st1)" by simp
    qed
    with hd Suc show ?thesis by simp
  qed
qed

lemma replace_key_absent: "k \<notin> fst ` set m \<Longrightarrow> replace_key k c m = m"
  by (induction m) (auto simp: replace_key_def)

lemma map_of_replace_key:
  "map_of (replace_key k c m) k' = (if k' = k then map_option (\<lambda>_. c) (map_of m k) else map_of m k')"
  by (induction m) (auto simp: replace_key_def)

lemma transform_map_at:
  assumes "distinct (map fst m)"
    and "map_of m k = Some c"
    and "\<And>k' x s. (k', x) \<in> set m \<Longrightarrow> k' \<noteq> k \<Longrightarrow> f k' x s = Returned ((x, None), s)"
    and "f k c st0 = Returned ((c', None), st1)"
  shows "transform_map f m st0 = Returned (Inr (replace_key k c' m), st1)"
  using assms
proof (induction m)
  case Nil
  then show ?case by simp
next
  case (Cons kv rest)
  obtain k0 v0 where kv: "kv = (k0, v0)" by (cases kv)
  show ?case
  proof (cases "k0 = k")
    case True
    with Cons.prems(1,2) kv have c: "v0 = c" and absent: "k \<notin> fst ` set rest" by auto
    have "transform_map f rest st1 = Returned (Inr rest, st1)"
    proof (rule transform_map_id)
      show "f k' x s = Returned ((x, None), s)" if "(k', x) \<in> set rest" for k' x s
      proof -
        from that absent have "k' \<noteq> k" by force
        with that show ?thesis by (intro Cons.prems(3)) simp_all
      qed
    qed
    with Cons.prems(4) True kv c replace_key_absent [OF absent, of c']
    show ?thesis by (simp add: replace_key_def)
  next
    case False
    have hd: "f k0 v0 s = Returned ((v0, None), s)" for s
      using Cons.prems(3) [of k0 v0 s] kv False by simp
    have "transform_map f rest st0 = Returned (Inr (replace_key k c' rest), st1)"
    proof (rule Cons.IH)
      from Cons.prems(1) show "distinct (map fst rest)" by simp
      from Cons.prems(2) kv False show "map_of rest k = Some c" by simp
      show "f k' x s = Returned ((x, None), s)" if "(k', x) \<in> set rest" "k' \<noteq> k" for k' x s
        using that by (intro Cons.prems(3)) simp_all
      show "f k c st0 = Returned ((c', None), st1)" by (rule Cons.prems(4))
    qed
    with hd kv False show ?thesis by (simp add: replace_key_def)
  qed
qed

lemma strict_prefix_snoc_prefix: "prefix (pre @ [s]) q \<Longrightarrow> strict_prefix pre q"
  by (auto simp: prefix_def strict_prefix_def)

lemma transform_children_id:
  assumes wf: "wf_Value v"
    and cb: "\<And>q x s. strict_prefix pre q \<Longrightarrow> cb q x s = Returned ((x, None), s)"
  shows "transform pre v cb st = transform_node pre v cb st"
proof -
  obtain ty pl where v: "v = Value ty pl" by (cases v)
  have child: "transform (pre @ [s]) x cb st' = Returned ((x, None), st')" if "wf_Value x" for s x st'
  proof (rule transform_off_path [OF that])
    show "cb q y st'' = Returned ((y, None), st'')" if "prefix (pre @ [s]) q" for q y st''
    proof (rule cb)
      from that show "strict_prefix pre q" by (rule strict_prefix_snoc_prefix)
    qed
  qed
  show ?thesis
  proof (cases "IsNull v \<or> \<not> IsKnown v")
    case True
    with v show ?thesis by simp
  next
    case known: False
    then have pl: "pl \<noteq> Null" "pl \<noteq> Unknown" using v by (auto simp: IsNull_def IsKnown_def)
    show ?thesis
    proof (cases ty)
      case (tfList et)
      with wf pl v obtain l where l: "pl = PSlice l" using fits_tfList by auto
      have "transform_slice (\<lambda>pos el. transform (pre @ [ElementKeyInt (int pos)]) el cb) 0 l st
          = Returned (Inr l, st)"
      proof (rule transform_slice_id)
        show "transform (pre @ [ElementKeyInt (int i)]) el cb s = Returned ((el, None), s)"
          if "el \<in> set l" for i el s
          using that wf v l by (intro child) (simp add: list_all_iff)
      qed
      with known v tfList l show ?thesis by simp
    next
      case (tfMap et)
      with wf pl v obtain m where m: "pl = PMap m" using fits_tfMap by auto
      have "transform_map (\<lambda>k x. transform (pre @ [ElementKeyString k]) x cb) m st
          = Returned (Inr m, st)"
      proof (rule transform_map_id)
        show "transform (pre @ [ElementKeyString k]) x cb s = Returned ((x, None), s)"
          if "(k, x) \<in> set m" for k x s
          using that wf v m by (intro child) (auto simp: list_all_iff)
      qed
      with known v tfMap m show ?thesis by simp
    next
      case (tfObject ats)
      with wf pl v obtain m where m: "pl = PMap m" using fits_tfObject by auto
      have "transform_map (\<lambda>k x. transform (pre @ [AttributeName k]) x cb) m st
          = Returned (Inr m, st)"
      proof (rule transform_map_id)
        show "transform (pre @ [AttributeName k]) x cb s = Returned ((x, None), s)"
          if "(k, x) \<in> set m" for k x s
          using that wf v m by (intro child) (auto simp: list_all_iff)
      qed
      with known v tfObject m show ?thesis by simp
    qed (use known v in auto)
  qed
qed

lemma Apply_known:
  "ApplyTerraform5AttributePathStep (Value ty pl) s = Inr c \<Longrightarrow> pl \<noteq> Null \<and> pl \<noteq> Unknown"
  by (auto simp: IsNull_def IsKnown_def split: if_splits)

lemma Apply_ElementKeyInt:
  "ApplyTerraform5AttributePathStep (Value ty pl) (ElementKeyInt i) = Inr c \<Longrightarrow>
   \<exists>et l. ty = tfList et \<and> pl = PSlice l \<and> 0 \<le> i \<and> nat i < length l \<and> c = l ! nat i"
  by (auto simp: IsNull_def IsKnown_def split: if_splits tftype.splits payload.splits)

lemma Apply_ElementKeyString:
  "ApplyTerraform5AttributePathStep (Value ty pl) (ElementKeyString k) = Inr c \<Longrightarrow>
   \<exists>et m. ty = tfMap et \<and> pl = PMap m \<and> map_of m k = Some c"
  by (auto simp: IsNull_def IsKnown_def split: if_splits tftype.splits payload.splits option.splits)

lemma Apply_AttributeName:
  "ApplyTerraform5AttributePathStep (Value ty pl) (AttributeName k) = Inr c \<Longrightarrow>
   \<exists>ats m. ty = tfObject ats \<and> pl = PMap m \<and> map_of m k = Some c"
  by (auto simp: IsNull_def IsKnown_def split: if_splits tftype.splits payload.splits option.splits)

lemma Apply_slice_update:
  "s \<noteq> ElementKeyInt (int j) \<Longrightarrow>
   ApplyTerraform5AttributePathStep (Value ty (PSlice (l[j := c]))) s =
   ApplyTerraform5AttributePathStep (Value ty (PSlice l)) s"
  by (cases s) (auto simp: IsNull_def IsKnown_def nth_list_update nat_eq_iff split: tftype.splits)

lemma Apply_slice_update_same:
  "j < length l \<Longrightarrow>
   ApplyTerraform5AttributePathStep (Value (tfList et) (PSlice (l[j := c]))) (ElementKeyInt (int j)) = Inr c"
  by (auto simp: IsNull_def IsKnown_def)

lemma Apply_replace_key_object:
  "s \<noteq> AttributeName k \<Longrightarrow>
   ApplyTerraform5AttributePathStep (Value (tfObject ats) (PMap (replace_key k c m))) s =
   ApplyTerraform5AttributePathStep (Value (tfObject ats) (PMap m)) s"
  by (auto simp: IsNull_def IsKnown_def map_of_replace_key split: step.splits)

lemma Apply_replace_key_map:
  "s \<noteq> ElementKeyString k \<Longrightarrow>
   ApplyTerraform5AttributePathStep (Value (tfMap et) (PMap (replace_key k c m))) s =
   ApplyTerraform5AttributePathStep (Value (tfMap et) (PMap m)) s"
  by (auto simp: IsNull_def IsKnown_def map_of_replace_key split: step.splits)

lemma Apply_replace_key_same_object:
  "map_of m k = Some c0 \<Longrightarrow>
   ApplyTerraform5AttributePathStep (Value (tfObject ats) (PMap (replace_key k c m))) (AttributeName k) = Inr c"
  by (auto simp: IsNull_def IsKnown_def map_of_replace_key)

lemma Apply_replace_key_same_map:
  "map_of m k = Some c0 \<Longrightarrow>
   ApplyTerraform5AttributePathStep (Value (tfMap et) (PMap (replace_key k c m))) (ElementKeyString k) = Inr c"
  by (auto simp: IsNull_def IsKnown_def map_of_replace_key)

lemma apart_Cons: "apart (s # p) (s' # q) = (s \<noteq> s' \<or> apart p q)"
  by (auto simp: apart_def)

lemma apart_Nil [simp]: "\<not> apart p []" "\<not> apart [] q"
  by (simp_all add: apart_def)

text \<open>
  What the sibling lookups see when one child of a node is replaced: the step \<open>s\<close>
  reaches \<open>c\<close> in \<open>v\<close> and \<open>c'\<close> in \<open>v'\<close>, every other step gives the same in both,
  and \<open>c'\<close> agrees with \<open>c\<close> apart from \<open>rest\<close>.
\<close>

lemma valueAt_replaced_child:
  assumes s: "ApplyTerraform5AttributePathStep v s = Inr c"
    and s': "ApplyTerraform5AttributePathStep v' s = Inr c'"
    and other: "\<And>t. t \<noteq> s \<Longrightarrow> ApplyTerraform5AttributePathStep v' t = ApplyTerraform5AttributePathStep v t"
    and child: "\<And>q. apart rest q \<Longrightarrow> valueAt c' q = valueAt c q"
    and q: "apart (s # rest) q"
  shows "valueAt v' q = valueAt v q"
proof (cases q)
  case Nil
  with q show ?thesis by simp
next
  case (Cons t q')
  show ?thesis
  proof (cases "t = s")
    case True
    with q Cons have "apart rest q'" by (simp add: apart_Cons)
    with child s s' Cons True show ?thesis by (simp add: valueAt_Cons)
  next
    case False
    with other Cons show ?thesis by (simp add: valueAt_Cons)
  qed
qed

lemma transform_at_path:
  assumes off: "\<And>q x s. q \<noteq> path \<Longrightarrow> cb q x s = Returned ((x, None), s)"
    and at: "\<And>x. cb path x st0 = Returned ((g x, None), st1)"
  shows "wf_Value v \<Longrightarrow> valueAt v rest = Inr old \<Longrightarrow> Type (g old) = Type old \<Longrightarrow> path = pre @ rest \<Longrightarrow>
     \<exists>v'. transform pre v cb st0 = Returned ((v', None), st1) \<and> Type v' = Type v \<and>
          valueAt v' rest = Inr (g old) \<and> (\<forall>q. apart rest q \<longrightarrow> valueAt v' q = valueAt v q)"
proof (induction rest arbitrary: pre v)
  case Nil
  then have v: "old = v" and path: "path = pre" by (simp_all add: valueAt_Nil)
  have "transform pre v cb st0 = transform_node pre v cb st0"
  proof (rule transform_children_id [OF Nil.prems(1)])
    show "cb q x s = Returned ((x, None), s)" if "strict_prefix pre q" for q x s
      using that path by (intro off) auto
  qed
  also have "\<dots> = Returned ((g v, None), st1)"
    using at [of v] path v Nil.prems(3) by (simp add: transform_node_def)
  finally show ?case using v Nil.prems(3) by (simp add: valueAt_Nil)
next
  case (Cons s rest)
  obtain ty pl where v: "v = Value ty pl" by (cases v)
  from Cons.prems(2) obtain c where c: "ApplyTerraform5AttributePathStep v s = Inr c"
    and c_old: "valueAt c rest = Inr old"
    by (auto simp: valueAt_Cons split: sum.splits)
  from c have "pl \<noteq> Null \<and> pl \<noteq> Unknown" unfolding v by (rule Apply_known)
  then have known: "\<not> (IsNull (Value ty pl) \<or> \<not> IsKnown (Value ty pl))"
    by (simp add: IsNull_def IsKnown_def)
  have path: "path = (pre @ [s]) @ rest" using Cons.prems(4) by simp
  have pre_ne: "pre \<noteq> path" using Cons.prems(4) by simp
  have node: "transform_node pre x cb st = Returned ((x, None), st)" for x st
    by (rule transform_node_id) (rule off [OF pre_ne])
  have sibling: "transform (pre @ [t]) x cb st = Returned ((x, None), st)"
    if "wf_Value x" "t \<noteq> s" for t x st
  proof (rule transform_off_path [OF that(1)])
    show "cb q y st' = Returned ((y, None), st')" if "prefix (pre @ [t]) q" for q y st'
    proof (rule off)
      from that \<open>t \<noteq> s\<close> show "q \<noteq> path" unfolding Cons.prems(4) by (auto simp: prefix_def)
    qed
  qed
  show ?case
  proof (cases s)
    case (ElementKeyInt i)
    with c v obtain et l where ty: "ty = tfList et" and pl: "pl = PSlice l"
      and i: "0 \<le> i" "nat i < length l" and cl: "c = l ! nat i"
      using Apply_ElementKeyInt by blast
    from Cons.prems(1) v pl i cl have wfc: "wf_Value c" and wfl: "\<And>x. x \<in> set l \<Longrightarrow> wf_Value x"
      by (auto simp: list_all_iff)
    from Cons.IH [OF wfc c_old Cons.prems(3) path]
    obtain c' where c': "transform (pre @ [s]) c cb st0 = Returned ((c', None), st1)"
      and c'_new: "valueAt c' rest = Inr (g old)"
      and c'_apart: "\<And>q. apart rest q \<Longrightarrow> valueAt c' q = valueAt c q"
      by blast
    have loop: "transform_slice (\<lambda>pos el. transform (pre @ [ElementKeyInt (int pos)]) el cb) 0 l st0
        = Returned (Inr (l[nat i := c']), st1)"
    proof (rule transform_slice_at [OF i(2)])
      show "transform (pre @ [ElementKeyInt (int (0 + k))]) (l ! k) cb st = Returned ((l ! k, None), st)"
        if "k < length l" "k \<noteq> nat i" for k st
        using that i ElementKeyInt by (intro sibling wfl) auto
      from c' ElementKeyInt i cl
      show "transform (pre @ [ElementKeyInt (int (0 + nat i))]) (l ! nat i) cb st0 = Returned ((c', None), st1)"
        by simp
    qed
    let ?v' = "Value ty (PSlice (l[nat i := c']))"
    from i have ne: "l \<noteq> []" by auto
    have tr: "transform pre v cb st0 = Returned ((?v', None), st1)"
      using known v ty pl ne loop node by simp
    have s': "ApplyTerraform5AttributePathStep ?v' s = Inr c'"
      using Apply_slice_update_same [OF i(2), of et c'] ElementKeyInt i ty by simp
    have other: "ApplyTerraform5AttributePathStep ?v' t = ApplyTerraform5AttributePathStep v t"
      if "t \<noteq> s" for t
      using that Apply_slice_update [of t "nat i" ty l c'] ElementKeyInt i v pl by simp
    have "valueAt ?v' q = valueAt v q" if "apart (s # rest) q" for q
      by (rule valueAt_replaced_child [OF c s' other c'_apart that])
    with tr s' c'_new v show ?thesis by (auto simp: valueAt_Cons)
  next
    case (ElementKeyString k)
    with c v obtain et m where ty: "ty = tfMap et" and pl: "pl = PMap m" and mk: "map_of m k = Some c"
      using Apply_ElementKeyString by blast
    from Cons.prems(1) v pl have dist: "distinct (map fst m)"
      and wfm: "\<And>k' x. (k', x) \<in> set m \<Longrightarrow> wf_Value x"
      by (auto simp: list_all_iff)
    from mk have cm: "(k, c) \<in> set m" by (rule map_of_SomeD)
    from Cons.IH [OF wfm [OF cm] c_old Cons.prems(3) path]
    obtain c' where c': "transform (pre @ [s]) c cb st0 = Returned ((c', None), st1)"
      and c'_new: "valueAt c' rest = Inr (g old)"
      and c'_apart: "\<And>q. apart rest q \<Longrightarrow> valueAt c' q = valueAt c q"
      by blast
    have loop: "transform_map (\<lambda>k x. transform (pre @ [ElementKeyString k]) x cb) m st0
        = Returned (Inr (replace_key k c' m), st1)"
    proof (rule transform_map_at [OF dist mk])
      show "transform (pre @ [ElementKeyString k']) x cb st = Returned ((x, None), st)"
        if "(k', x) \<in> set m" "k' \<noteq> k" for k' x st
        using that ElementKeyString by (intro sibling wfm) auto
      from c' ElementKeyString
      show "transform (pre @ [ElementKeyString k]) c cb st0 = Returned ((c', None), st1)" by simp
    qed
    let ?v' = "Value ty (PMap (replace_key k c' m))"
    from cm have ne: "m \<noteq> []" by auto
    have tr: "transform pre v cb st0 = Returned ((?v', None), st1)"
      using known v ty pl ne loop node by simp
    have s': "ApplyTerraform5AttributePathStep ?v' s = Inr c'"
      using Apply_replace_key_same_map [OF mk] ElementKeyString ty by simp
    have other: "ApplyTerraform5AttributePathStep ?v' t = ApplyTerraform5AttributePathStep v t"
      if "t \<noteq> s" for t
      using that Apply_replace_key_map [of t k et c' m] ElementKeyString v pl ty by simp
    have "valueAt ?v' q = valueAt v q" if "apart (s # rest) q" for q
      by (rule valueAt_replaced_child [OF c s' other c'_apart that])
    with tr s' c'_new v show ?thesis by (auto simp: valueAt_Cons)
  next
    case (AttributeName k)
    with c v obtain ats m where ty: "ty = tfObject ats" and pl: "pl = PMap m" and mk: "map_of m k = Some c"
      using Apply_AttributeName by blast
    from Cons.prems(1) v pl have dist: "distinct (map fst m)"
      and wfm: "\<And>k' x. (k', x) \<in> set m \<Longrightarrow> wf_Value x"
      by (auto simp: list_all_iff)
    from mk have cm: "(k, c) \<in> set m" by (rule map_of_SomeD)
    from Cons.IH [OF wfm [OF cm] c_old Cons.prems(3) path]
    obtain c' where c': "transform (pre @ [s]) c cb st0 = Returned ((c', None), st1)"
      and c'_new: "valueAt c' rest = Inr (g old)"
      and c'_apart: "\<And>q. apart rest q \<Longrightarrow> valueAt c' q = valueAt c q"
      by blast
    have loop: "transform_map (\<lambda>k x. transform (pre @ [AttributeName k]) x cb) m st0
        = Returned (Inr (replace_key k c' m), st1)"
    proof (rule transform_map_at [OF dist mk])
      show "transform (pre @ [AttributeName k']) x cb st = Returned ((x, None), st)"
        if "(k', x) \<in> set m" "k' \<noteq> k" for k' x st
        using that AttributeName by (intro sibling wfm) auto
      from c' AttributeName
      show "transform (pre @ [AttributeName k]) c cb st0 = Returned ((c', None), st1)" by simp
    qed
    let ?v' = "Value ty (PMap (replace_key k c' m))"
    from cm have ne: "m \<noteq> []" by auto
    have tr: "transform pre v cb st0 = Returned ((?v', None), st1)"
      using known v ty pl ne loop node by simp
    have s': "ApplyTerraform5AttributePathStep ?v' s = Inr c'"
      using Apply_replace_key_same_object [OF mk] AttributeName ty by simp
    have other: "ApplyTerraform5AttributePathStep ?v' t = ApplyTerraform5AttributePathStep v t"
      if "t \<noteq> s" for t
      using that Apply_replace_key_object [of t k ats c' m] AttributeName v pl ty by simp
    have "valueAt ?v' q = valueAt v q" if "apart (s # rest) q" for q
      by (rule valueAt_replaced_child [OF c s' other c'_apart that])
    with tr s' c'_new v show ?thesis by (auto simp: valueAt_Cons)
  qed
qed

subsection \<open>The callback of SetAttribute\<close>

lemma transformFunc_off: "q \<noteq> path \<Longrightarrow> transformFunc attrType path pl q x s = Returned ((x, None), s)"
  by (simp add: transformFunc_def)

lemma transformFunc_at:
  assumes "fits (TerraformType attrType) pl"
    and "\<not> HasError fd"
    and "\<not> HasError (validated attrType (Value (TerraformType attrType) pl) path)"
  shows "transformFunc attrType path pl path x fd =
     Returned ((Value (TerraformType attrType) pl, None),
       fd @ validated attrType (Value (TerraformType attrType) pl) path)"
  using assms
  by (simp add: transformFunc_def NewValue_fits validated_def Append_def HasError_append Let_def
      split: option.splits)

lemma transformFunc_keeps:
  assumes "Validate attrType = Some validate"
    and "fits (TerraformType attrType) pl"
    and "HasError (validate (Value (TerraformType attrType) pl) path)"
  shows "transformFunc attrType path pl q x s =
     Returned ((x, None),
       if q = path then s @ validate (Value (TerraformType attrType) pl) path else s)"
  using assms
  by (simp add: transformFunc_def NewValue_fits Append_def HasError_append Let_def)


lemma getAttributeValue_at:
  assumes "AttributeTypeAtPath (Schema s) p = Inr attrType"
    and "\<not> IsNull (Raw s)"
    and "terraformValueAtPath s p = Inr tfValue"
    and "\<not> HasError (validated attrType tfValue p)"
  shows "getAttributeValue s p =
     (case ValueFromTerraform attrType tfValue of
        Inl err \<Rightarrow> (None, validated attrType tfValue p @
           [NewAttributeErrorDiagnostic p ''State Read Error'' (TextError readAttributeText err)])
      | Inr attrValue \<Rightarrow> (attrValue, validated attrType tfValue p))"
  using assms
  by (auto simp: getAttributeValue_def validated_def Append_def AddAttributeError_def Let_def
      split: option.splits sum.splits)

lemma getAttributeValue_cong_Raw:
  assumes "Schema s' = Schema s"
    and "IsNull (Raw s') = IsNull (Raw s)"
    and "terraformValueAtPath s' q = terraformValueAtPath s q"
  shows "getAttributeValue s' q = getAttributeValue s q"
  unfolding getAttributeValue_def assms by (rule refl)

lemma valueAt_not_null:
  "valueAt v (s # rest) = Inr x \<Longrightarrow> \<not> IsNull v"
  by (cases v) (auto simp: valueAt_Cons split: if_splits sum.splits)

subsection \<open>SetAttribute on a node that the tree holds\<close>

text \<open>
  Where a well-formed tree already holds at \<open>p\<close> a node of the wire type of the
  schema's attribute type, the write takes place: the lookup at \<open>p\<close> gives the new
  wire value, \<^verbatim>\<open>getAttributeValue\<close> at \<open>p\<close> is the conversion of that wire value,
  and every path that is neither a prefix nor an extension of \<open>p\<close> reads as before.
\<close>

lemma SetAttribute_existing_node:
  assumes sch: "AttributeTypeAtPath (Schema s) p = Inr attrType"
    and fv: "FromValue env attrType val p = (Some nv, fd)"
    and fd: "\<not> HasError fd"
    and tv: "ToTerraformValue env nv = Inr pl"
    and fit: "fits (TerraformType attrType) pl"
    and wf: "wf_Value (Raw s)"
    and old: "terraformValueAtPath s p = Inr old"
    and ty: "Type old = TerraformType attrType"
    and valid: "\<not> HasError (validated attrType (Value (TerraformType attrType) pl) p)"
    and root: "p = [] \<Longrightarrow> pl \<noteq> Null"
  shows "\<exists>s' d. SetAttribute Transform env s p val = Returned (s', d) \<and> \<not> HasError d \<and>
           Schema s' = Schema s \<and>
           terraformValueAtPath s' p = Inr (Value (TerraformType attrType) pl) \<and>
           getAttributeValue s' p =
             (case ValueFromTerraform attrType (Value (TerraformType attrType) pl) of
                Inl err \<Rightarrow> (None, validated attrType (Value (TerraformType attrType) pl) p @
                   [NewAttributeErrorDiagnostic p ''State Read Error'' (TextError readAttributeText err)])
              | Inr attrValue \<Rightarrow> (attrValue, validated attrType (Value (TerraformType attrType) pl) p)) \<and>
           (ValueFromTerraform attrType (Value (TerraformType attrType) pl) = Inr (Some nv) \<longrightarrow>
              getAttributeValue s' p = (Some nv, validated attrType (Value (TerraformType attrType) pl) p) \<and>
              (\<forall>target. GetAttribute env s' p target =
                 (fst (ValueAs env nv target),
                  validated attrType (Value (TerraformType attrType) pl) p @
                    map (reattribute p) (snd (ValueAs env nv target))))) \<and>
           (\<forall>q. apart p q \<longrightarrow>
              terraformValueAtPath s' q = terraformValueAtPath s q \<and>
              getAttributeValue s' q = getAttributeValue s q \<and>
              (\<forall>target. GetAttribute env s' q target = GetAttribute env s q target))"
proof -
  let ?new = "Value (TerraformType attrType) pl"
  let ?vd = "validated attrType ?new p"
  let ?cb = "transformFunc attrType p pl"
  have "\<exists>v'. transform [] (Raw s) ?cb fd = Returned ((v', None), fd @ ?vd) \<and> Type v' = Type (Raw s) \<and>
          valueAt v' p = Inr ?new \<and> (\<forall>q. apart p q \<longrightarrow> valueAt v' q = valueAt (Raw s) q)"
  proof (rule transform_at_path [where path = p and old = old and g = "\<lambda>x. ?new"])
    show "?cb q x st = Returned ((x, None), st)" if "q \<noteq> p" for q x st
      using that by (rule transformFunc_off)
    show "?cb p x fd = Returned ((?new, None), fd @ ?vd)" for x
      by (rule transformFunc_at [OF fit fd valid])
    show "wf_Value (Raw s)" by (rule wf)
    from old show "valueAt (Raw s) p = Inr old" by (simp add: terraformValueAtPath_valueAt)
    from ty show "Type ?new = Type old" by simp
    show "p = [] @ p" by simp
  qed
  then obtain v' where tr: "Transform (Raw s) ?cb fd = Returned ((v', None), fd @ ?vd)"
    and at: "valueAt v' p = Inr ?new"
    and others: "\<And>q. apart p q \<Longrightarrow> valueAt v' q = valueAt (Raw s) q"
    by (auto simp: Transform_def)
  let ?s' = "s\<lparr>Raw := v'\<rparr>"
  have nn': "\<not> IsNull (Raw ?s')"
  proof (cases p)
    case Nil
    with at root show ?thesis by (simp add: valueAt_Nil IsNull_def)
  next
    case (Cons st rest)
    with at valueAt_not_null show ?thesis by auto
  qed
  have nn: "\<not> IsNull (Raw s)" if "p \<noteq> []"
  proof -
    from that obtain st rest where "p = st # rest" by (cases p) auto
    with old valueAt_not_null show ?thesis by (auto simp: terraformValueAtPath_valueAt)
  qed
  have set: "SetAttribute Transform env s p val = Returned (?s', fd @ ?vd)"
    using sch fv fd tv tr by (simp add: SetAttribute_def Append_def)
  have walk: "terraformValueAtPath ?s' p = Inr ?new"
    using at by (simp add: terraformValueAtPath_valueAt)
  have get: "getAttributeValue ?s' p =
      (case ValueFromTerraform attrType ?new of
         Inl err \<Rightarrow> (None, ?vd @
            [NewAttributeErrorDiagnostic p ''State Read Error'' (TextError readAttributeText err)])
       | Inr attrValue \<Rightarrow> (attrValue, ?vd))"
    by (rule getAttributeValue_at [OF _ nn' walk valid]) (simp add: sch)
  have round: "getAttributeValue ?s' p = (Some nv, ?vd) \<and>
      (\<forall>target. GetAttribute env ?s' p target =
         (fst (ValueAs env nv target), ?vd @ map (reattribute p) (snd (ValueAs env nv target))))"
    if "ValueFromTerraform attrType ?new = Inr (Some nv)"
    using that get valid by (simp add: GetAttribute_def Append_def split: prod.splits)
  have sib: "terraformValueAtPath ?s' q = terraformValueAtPath s q \<and>
      getAttributeValue ?s' q = getAttributeValue s q \<and>
      (\<forall>target. GetAttribute env ?s' q target = GetAttribute env s q target)"
    if "apart p q" for q
  proof -
    have w: "terraformValueAtPath ?s' q = terraformValueAtPath s q"
      using others [OF that] by (simp add: terraformValueAtPath_valueAt)
    from that have "p \<noteq> []" by auto
    from nn [OF this] nn' w have g: "getAttributeValue ?s' q = getAttributeValue s q"
      by (intro getAttributeValue_cong_Raw) simp_all
    from w g show ?thesis by (simp add: GetAttribute_def)
  qed
  from fd valid have "\<not> HasError (fd @ ?vd)" by (simp add: HasError_append)
  with set walk get round sib show ?thesis
    by (intro exI [of _ ?s'] exI [of _ "fd @ ?vd"]) simp
qed

lemma SetAttribute_existing_node_example:
  "\<exists>s' d. SetAttribute Transform testEnv testStateTags [AttributeName ''tags'', ElementKeyInt 1]
            (Boxed (Value tfString (PString ''c''))) = Returned (s', d) \<and> \<not> HasError d \<and>
        getAttributeValue s' [AttributeName ''tags'', ElementKeyInt 1] =
          (Some (Value tfString (PString ''c'')),
           [TestWarningDiagnostic [AttributeName ''tags'', ElementKeyInt 1]]) \<and>
        terraformValueAtPath s' [AttributeName ''tags'', ElementKeyInt 0] =
          Inr (Value tfString (PString ''a'')) \<and>
        terraformValueAtPath s' [AttributeName ''name''] =
          Inr (Value tfString (PString ''namevalue''))"
proof -
  let ?p = "[AttributeName ''tags'', ElementKeyInt 1]"
  let ?c = "Value tfString (PString ''c'')"
  let ?t = StringTypeWithValidateWarning
  have T: "TerraformType ?t = tfString"
    and V: "validated ?t (Value tfString (PString ''c'')) ?p = [TestWarningDiagnostic ?p]"
    and C: "ValueFromTerraform ?t ?c = Inr (Some ?c)"
    by (simp_all add: StringTypeWithValidateWarning_def StringType_def validated_def)
  have sch: "AttributeTypeAtPath (Schema testStateTags) ?p = Inr ?t"
    by (simp add: testStateTags_def testSchemaTags_def)
  have fv: "FromValue testEnv ?t (Boxed ?c) ?p = (Some ?c, [])"
    by (simp add: testEnv_def)
  have fd: "\<not> HasError []" by simp
  have tv: "ToTerraformValue testEnv ?c = Inr (PString ''c'')"
    by (simp add: testEnv_def)
  have fit: "fits (TerraformType ?t) (PString ''c'')" by (simp add: T)
  have wf: "wf_Value (Raw testStateTags)"
    by (simp add: testStateTags_def testRawTags_def)
  have old: "terraformValueAtPath testStateTags ?p = Inr (Value tfString (PString ''b''))"
    by (simp add: terraformValueAtPath_def testStateTags_def testRawTags_def IsNull_def IsKnown_def)
  have ty: "Type (Value tfString (PString ''b'')) = TerraformType ?t" by (simp add: T)
  have valid: "\<not> HasError (validated ?t (Value (TerraformType ?t) (PString ''c'')) ?p)"
    by (simp add: T V TestWarningDiagnostic_def NewAttributeWarningDiagnostic_def)
  have root: "?p = [] \<Longrightarrow> PString ''c'' \<noteq> Null" by simp
  have a0: "apart ?p [AttributeName ''tags'', ElementKeyInt 0]"
    and a1: "apart ?p [AttributeName ''name'']"
    by (simp_all add: apart_def)
  have w0: "terraformValueAtPath testStateTags [AttributeName ''tags'', ElementKeyInt 0] =
      Inr (Value tfString (PString ''a''))"
    and w1: "terraformValueAtPath testStateTags [AttributeName ''name''] =
      Inr (Value tfString (PString ''namevalue''))"
    by (simp_all add: terraformValueAtPath_def testStateTags_def testRawTags_def IsNull_def IsKnown_def)
  from SetAttribute_existing_node [OF sch fv fd tv fit wf old ty valid root]
  obtain s' d where
    "SetAttribute Transform testEnv testStateTags ?p (Boxed ?c) = Returned (s', d)"
    and "\<not> HasError d"
    and "ValueFromTerraform ?t (Value (TerraformType ?t) (PString ''c'')) = Inr (Some ?c) \<longrightarrow>
       getAttributeValue s' ?p = (Some ?c, validated ?t (Value (TerraformType ?t) (PString ''c'')) ?p) \<and>
       (\<forall>target. GetAttribute testEnv s' ?p target =
           (fst (ValueAs testEnv ?c target),
            validated ?t (Value (TerraformType ?t) (PString ''c'')) ?p @
              map (reattribute ?p) (snd (ValueAs testEnv ?c target))))"
    and "\<forall>q. apart ?p q \<longrightarrow>
       terraformValueAtPath s' q = terraformValueAtPath testStateTags q \<and>
       getAttributeValue s' q = getAttributeValue testStateTags q \<and>
       (\<forall>target. GetAttribute testEnv s' q target = GetAttribute testEnv testStateTags q target)"
    by blast
  with T V C a0 a1 w0 w1 show ?thesis
    by (intro exI [of _ s'] exI [of _ d]) simp
qed

section \<open>The claims\<close>

text \<open>
  C1, as the claim states it, fails: after \<^verbatim>\<open>RemoveResource\<close>, \<^verbatim>\<open>GetAttribute\<close> at the
  schema-valid path \<open>name\<close> returns one diagnostic, of Error severity.
\<close>

theorem GetAttribute_after_RemoveResource_counterexample:
  "AttributeTypeAtPath (Schema (testState StringType)) [AttributeName ''name''] = Inr StringType \<and>
   RemoveResource (testState StringType) =
     Returned ((testState StringType)\<lparr>Raw := Value (tfObject [(''name'', tfString)]) Null\<rparr>) \<and>
   GetAttribute testEnv
      ((testState StringType)\<lparr>Raw := Value (tfObject [(''name'', tfString)]) Null\<rparr>)
      [AttributeName ''name''] None =
     (None, [missingValueDiagnostic [AttributeName ''name'']]) \<and>
   Severity (missingValueDiagnostic [AttributeName ''name'']) = SeverityError"
  by (simp add: testState_def testSchema_def RemoveResource_def NewValue_Null StringType_def
        GetAttribute_def getAttributeValue_def IsNull_def AddAttributeError_def Append_def
        missingValueDiagnostic_def NewAttributeErrorDiagnostic_def)

text \<open>
  C1, amended. For every schema-valid path \<open>p\<close>, after \<^verbatim>\<open>RemoveResource\<close> the lookup
  \<^verbatim>\<open>getAttributeValue\<close> at \<open>p\<close> returns no value and no diagnostics, and
  \<^verbatim>\<open>GetAttribute\<close> at \<open>p\<close> leaves the target as it was and returns exactly one
  diagnostic: the "State Read Error" for a missing attribute value, of Error severity,
  attributed to \<open>p\<close>.
\<close>

theorem GetAttribute_after_RemoveResource:
  assumes "AttributeTypeAtPath (Schema s) p = Inr attrType"
  shows "\<exists>s'. RemoveResource s = Returned s' \<and>
           getAttributeValue s' p = (None, []) \<and>
           GetAttribute env s' p target = (target, [missingValueDiagnostic p]) \<and>
           Severity (missingValueDiagnostic p) = SeverityError \<and>
           Path (missingValueDiagnostic p) = Some p"
  using assms
  by (simp add: RemoveResource_def NewValue_Null GetAttribute_def getAttributeValue_def IsNull_def
        AddAttributeError_def Append_def missingValueDiagnostic_def NewAttributeErrorDiagnostic_def)

theorem GetAttribute_after_RemoveResource_witness:
  "\<exists>s'. RemoveResource (testState StringType) = Returned s' \<and>
           getAttributeValue s' [AttributeName ''name''] = (None, []) \<and>
           GetAttribute testEnv s' [AttributeName ''name''] None =
             (None, [missingValueDiagnostic [AttributeName ''name'']])"
proof -
  have "AttributeTypeAtPath (Schema (testState StringType)) [AttributeName ''name''] = Inr StringType"
    by (simp add: testState_def testSchema_def)
  from GetAttribute_after_RemoveResource [OF this, of testEnv None]
  show ?thesis by blast
qed

text \<open>
  C2. For every prior state, \<^verbatim>\<open>Set\<close> called with the nil interface value returns
  exactly one diagnostic, of Error severity, whose text sends the caller to
  \<^verbatim>\<open>State.RemoveResource\<close>, and the state after the call is the state before it.
\<close>

theorem Set_nil_rejected:
  "\<exists>d. Set env s NilInterface = Returned (s, [d]) \<and> Severity d = SeverityError \<and>
       Summary d = ''State Read Error'' \<and> Path d = None \<and>
       Detail d = TextError writeStateText
         (New ''cannot set nil as entire state; to remove a resource from state, call State.RemoveResource, instead'')"
  by (simp add: Set_def NewErrorDiagnostic_def)

theorem Set_nil_rejected_witness:
  "\<exists>d. Set testEnv (testState StringType) NilInterface = Returned (testState StringType, [d]) \<and>
       Severity d = SeverityError"
  using Set_nil_rejected [of testEnv "testState StringType"] by blast

text \<open>
  C3. For an attribute type with \<^verbatim>\<open>Validate\<close>, on a tree that is not null and has a
  value at the path: when \<^verbatim>\<open>Validate\<close> reports an error, \<^verbatim>\<open>getAttributeValue\<close>
  returns no value and the diagnostics of \<^verbatim>\<open>Validate\<close>, whatever the conversion
  would give, and \<^verbatim>\<open>GetAttribute\<close> returns them with the target untouched; when
  \<^verbatim>\<open>Validate\<close> reports no error, the result is that of the conversion
  \<^verbatim>\<open>ValueFromTerraform\<close> on the wire value, with the diagnostics of \<^verbatim>\<open>Validate\<close>
  (the warnings) kept, and \<^verbatim>\<open>GetAttribute\<close> hands the converted value to
  \<^verbatim>\<open>ValueAs\<close> and returns the warnings first.
\<close>

theorem getAttributeValue_Validate_before_conversion:
  assumes "AttributeTypeAtPath (Schema s) p = Inr attrType"
    and "Validate attrType = Some validate"
    and "\<not> IsNull (Raw s)"
    and "terraformValueAtPath s p = Inr tfValue"
  shows "(HasError (validate tfValue p) \<longrightarrow>
            getAttributeValue s p = (None, validate tfValue p) \<and>
            GetAttribute env s p target = (target, validate tfValue p)) \<and>
         (\<not> HasError (validate tfValue p) \<longrightarrow>
            getAttributeValue s p =
              (case ValueFromTerraform attrType tfValue of
                 Inl err \<Rightarrow> (None, validate tfValue p @
                    [NewAttributeErrorDiagnostic p ''State Read Error'' (TextError readAttributeText err)])
               | Inr attrValue \<Rightarrow> (attrValue, validate tfValue p))) \<and>
         (\<forall>av. \<not> HasError (validate tfValue p) \<and>
               ValueFromTerraform attrType tfValue = Inr (Some av) \<longrightarrow>
            GetAttribute env s p target =
              (fst (ValueAs env av target),
               validate tfValue p @ map (reattribute p) (snd (ValueAs env av target))))"
  using assms
  by (auto simp: getAttributeValue_def GetAttribute_def Append_def AddAttributeError_def Let_def
        split: sum.splits prod.splits)

theorem getAttributeValue_Validate_before_conversion_witness:
  "getAttributeValue (testState StringTypeWithValidateError) [AttributeName ''name''] =
     (None, [TestErrorDiagnostic [AttributeName ''name'']]) \<and>
   GetAttribute testEnv (testState StringTypeWithValidateError) [AttributeName ''name''] None =
     (None, [TestErrorDiagnostic [AttributeName ''name'']]) \<and>
   getAttributeValue (testState StringTypeWithValidateWarning) [AttributeName ''name''] =
     (Some (Value tfString (PString ''namevalue'')), [TestWarningDiagnostic [AttributeName ''name'']]) \<and>
   GetAttribute testEnv (testState StringTypeWithValidateWarning) [AttributeName ''name''] None =
     (Some (Value tfString (PString ''namevalue'')), [TestWarningDiagnostic [AttributeName ''name'']])"
proof -
  let ?p = "[AttributeName ''name'']"
  let ?v = "Value tfString (PString ''namevalue'')"
  have n: "\<And>t. \<not> IsNull (Raw (testState t))"
    by (simp add: testState_def testRaw_def IsNull_def)
  have w: "\<And>t. terraformValueAtPath (testState t) ?p = Inr ?v"
    by (simp add: terraformValueAtPath_def testState_def testRaw_def IsNull_def IsKnown_def)
  have ae: "AttributeTypeAtPath (Schema (testState StringTypeWithValidateError)) ?p
      = Inr StringTypeWithValidateError"
    by (simp add: testState_def testSchema_def)
  have aw: "AttributeTypeAtPath (Schema (testState StringTypeWithValidateWarning)) ?p
      = Inr StringTypeWithValidateWarning"
    by (simp add: testState_def testSchema_def)
  have ve: "Validate StringTypeWithValidateError = Some (\<lambda>v path. [TestErrorDiagnostic path])"
    by (simp add: StringTypeWithValidateError_def)
  have vw: "Validate StringTypeWithValidateWarning = Some (\<lambda>v path. [TestWarningDiagnostic path])"
    by (simp add: StringTypeWithValidateWarning_def)
  have he: "HasError [TestErrorDiagnostic ?p]"
    by (simp add: TestErrorDiagnostic_def NewAttributeErrorDiagnostic_def)
  have hw: "\<not> HasError [TestWarningDiagnostic ?p]"
    by (simp add: TestWarningDiagnostic_def NewAttributeWarningDiagnostic_def)
  have cw: "ValueFromTerraform StringTypeWithValidateWarning ?v = Inr (Some ?v)"
    by (simp add: StringTypeWithValidateWarning_def StringType_def)
  from getAttributeValue_Validate_before_conversion [OF ae ve n w, of testEnv None] he
  have 1: "getAttributeValue (testState StringTypeWithValidateError) ?p =
       (None, [TestErrorDiagnostic ?p]) \<and>
     GetAttribute testEnv (testState StringTypeWithValidateError) ?p None =
       (None, [TestErrorDiagnostic ?p])"
    by simp
  from getAttributeValue_Validate_before_conversion [OF aw vw n w, of testEnv None] hw cw
  have 2: "getAttributeValue (testState StringTypeWithValidateWarning) ?p =
      (Some ?v, [TestWarningDiagnostic ?p]) \<and>
     GetAttribute testEnv (testState StringTypeWithValidateWarning) ?p None =
      (Some ?v, [TestWarningDiagnostic ?p])"
    by (simp add: testEnv_def)
  from 1 2 show ?thesis by simp
qed

text \<open>
  C4. The callback of \<^verbatim>\<open>SetAttribute\<close> runs \<^verbatim>\<open>Validate\<close> on the new wire value
  \<^verbatim>\<open>NewValue(TerraformType, newTfVal)\<close> at the path, inside the transform. When
  \<^verbatim>\<open>Validate\<close> reports an error, the callback appends its diagnostics and returns
  the node it was given at \<open>p\<close>, with no error; \<^verbatim>\<open>SetAttribute\<close> then returns
  the state as it was before the call; and on a well-formed tree that holds a node at
  \<open>p\<close>, the diagnostics it returns are those of \<^verbatim>\<open>FromValue\<close> followed by those
  of \<^verbatim>\<open>Validate\<close>.
\<close>

theorem SetAttribute_Validate_error_keeps_node:
  assumes "Validate attrType = Some validate"
    and "fits (TerraformType attrType) pl"
    and "HasError (validate (Value (TerraformType attrType) pl) p)"
  shows "transformFunc attrType p pl p v diags =
           Returned ((v, None), diags @ validate (Value (TerraformType attrType) pl) p) \<and>
         (\<forall>env s val nv fd.
            AttributeTypeAtPath (Schema s) p = Inr attrType \<and>
            FromValue env attrType val p = (Some nv, fd) \<and> \<not> HasError fd \<and>
            ToTerraformValue env nv = Inr pl \<longrightarrow>
            (\<exists>d. SetAttribute Transform env s p val = Returned (s, d)) \<and>
            (\<forall>old. wf_Value (Raw s) \<and> terraformValueAtPath s p = Inr old \<longrightarrow>
               SetAttribute Transform env s p val =
                 Returned (s, fd @ validate (Value (TerraformType attrType) pl) p)))"
proof -
  let ?vd = "validate (Value (TerraformType attrType) pl) p"
  let ?cb = "transformFunc attrType p pl"
  note keeps = transformFunc_keeps [OF assms]
  have 1: "?cb p v diags = Returned ((v, None), diags @ ?vd)"
    by (simp add: keeps)
  have same: "\<exists>e st'. transform [] (Raw s) ?cb fd = Returned ((Raw s, e), st')"
    for s :: "'a State" and fd
    by (rule transform_keeps) (simp add: keeps)
  have 2: "\<exists>d. SetAttribute Transform env s p val = Returned (s, d)"
    if "AttributeTypeAtPath (Schema s) p = Inr attrType"
      and "FromValue env attrType val p = (Some nv, fd)" and "\<not> HasError fd"
      and "ToTerraformValue env nv = Inr pl"
    for env :: "('a, 'b, 'c) collaborators" and s val nv fd
  proof -
    from same [of s fd] obtain e st' where
      "Transform (Raw s) ?cb fd = Returned ((Raw s, e), st')"
      by (auto simp: Transform_def)
    with that show ?thesis
      by (cases e) (simp_all add: SetAttribute_def Append_def)
  qed
  have 3: "SetAttribute Transform env s p val = Returned (s, fd @ ?vd)"
    if "AttributeTypeAtPath (Schema s) p = Inr attrType"
      and "FromValue env attrType val p = (Some nv, fd)" and "\<not> HasError fd"
      and "ToTerraformValue env nv = Inr pl"
      and wf: "wf_Value (Raw s)" and old: "terraformValueAtPath s p = Inr old"
    for env :: "('a, 'b, 'c) collaborators" and s val nv fd old
  proof -
    have "\<exists>v'. transform [] (Raw s) ?cb fd = Returned ((v', None), fd @ ?vd) \<and> Type v' = Type (Raw s) \<and>
          valueAt v' p = Inr old \<and> (\<forall>q. apart p q \<longrightarrow> valueAt v' q = valueAt (Raw s) q)"
    proof (rule transform_at_path [where path = p and old = old and g = "\<lambda>x. x"])
      show "?cb q x st = Returned ((x, None), st)" if "q \<noteq> p" for q x st
        using that by (rule transformFunc_off)
      show "?cb p x fd = Returned ((x, None), fd @ ?vd)" for x
        by (simp add: keeps)
      show "wf_Value (Raw s)" by (rule wf)
      from old show "valueAt (Raw s) p = Inr old" by (simp add: terraformValueAtPath_valueAt)
      show "Type old = Type old" by (rule refl)
      show "p = [] @ p" by simp
    qed
    with same [of s fd]
    have "Transform (Raw s) ?cb fd = Returned ((Raw s, None), fd @ ?vd)"
      by (auto simp: Transform_def)
    with that show ?thesis
      by (simp add: SetAttribute_def Append_def)
  qed
  from 1 2 3 show ?thesis by blast
qed

theorem SetAttribute_Validate_error_keeps_node_witness:
  "transformFunc StringTypeWithValidateError [AttributeName ''name''] (PString ''other'')
      [AttributeName ''name''] (Value tfString (PString ''namevalue'')) [] =
     Returned ((Value tfString (PString ''namevalue''), None),
               [TestErrorDiagnostic [AttributeName ''name'']]) \<and>
   SetAttribute Transform testEnv (testState StringTypeWithValidateError)
       [AttributeName ''name''] (Boxed (Value tfString (PString ''other''))) =
     Returned (testState StringTypeWithValidateError, [TestErrorDiagnostic [AttributeName ''name'']])"
proof -
  let ?p = "[AttributeName ''name'']"
  let ?t = StringTypeWithValidateError
  have v: "Validate ?t = Some (\<lambda>v path. [TestErrorDiagnostic path])"
    by (simp add: StringTypeWithValidateError_def)
  have T: "TerraformType ?t = tfString"
    by (simp add: StringTypeWithValidateError_def StringType_def)
  have fit: "fits (TerraformType ?t) (PString ''other'')" by (simp add: T)
  have err: "HasError [TestErrorDiagnostic ?p]"
    by (simp add: TestErrorDiagnostic_def NewAttributeErrorDiagnostic_def)
  have sch: "AttributeTypeAtPath (Schema (testState ?t)) ?p = Inr ?t"
    by (simp add: testState_def testSchema_def)
  have fv: "FromValue testEnv ?t (Boxed (Value tfString (PString ''other''))) ?p =
      (Some (Value tfString (PString ''other'')), [])"
    by (simp add: testEnv_def)
  have tv: "ToTerraformValue testEnv (Value tfString (PString ''other'')) = Inr (PString ''other'')"
    by (simp add: testEnv_def)
  have wf: "wf_Value (Raw (testState ?t))"
    by (simp add: testState_def testRaw_def)
  have old: "terraformValueAtPath (testState ?t) ?p = Inr (Value tfString (PString ''namevalue''))"
    by (simp add: terraformValueAtPath_def testState_def testRaw_def IsNull_def IsKnown_def)
  have fd: "\<not> HasError []" by simp
  from SetAttribute_Validate_error_keeps_node [OF v fit err,
      of "Value tfString (PString ''namevalue'')" "[]"]
  have "transformFunc ?t ?p (PString ''other'') ?p (Value tfString (PString ''namevalue'')) [] =
          Returned ((Value tfString (PString ''namevalue''), None), [] @ [TestErrorDiagnostic ?p])"
    and "\<And>(env :: (Value, Value, Value option) collaborators) s val nv fd old.
          AttributeTypeAtPath (Schema s) ?p = Inr ?t \<Longrightarrow>
          FromValue env ?t val ?p = (Some nv, fd) \<Longrightarrow> \<not> HasError fd \<Longrightarrow>
          ToTerraformValue env nv = Inr (PString ''other'') \<Longrightarrow>
          wf_Value (Raw s) \<Longrightarrow> terraformValueAtPath s ?p = Inr old \<Longrightarrow>
          SetAttribute Transform env s ?p val = Returned (s, fd @ [TestErrorDiagnostic ?p])"
    by blast+
  from this(1) this(2) [OF sch fv fd tv wf old] show ?thesis by simp
qed

text \<open>
  C5. \<^verbatim>\<open>SetAttribute\<close> followed by \<^verbatim>\<open>GetAttribute\<close> at the same path does not
  return the value just set when the tree holds no node at the path. On the null tree
  that \<^verbatim>\<open>RemoveResource\<close> leaves, \<^verbatim>\<open>SetAttribute\<close> at the schema-valid path
  \<open>name\<close> with a compatible value returns no diagnostics and leaves the tree null, and
  \<^verbatim>\<open>GetAttribute\<close> at \<open>name\<close> then returns the missing-value error and no value.
  On the tree with two elements in \<open>tags\<close>, \<^verbatim>\<open>SetAttribute\<close> at the schema-valid
  path \<open>tags[5]\<close> returns no diagnostics and leaves the tree as it was, and
  \<^verbatim>\<open>GetAttribute\<close> at \<open>tags[5]\<close> then returns a "State Read Error" and no value.
\<close>

theorem SetAttribute_drops_write_without_node:
  "AttributeTypeAtPath (Schema (testState StringType)) [AttributeName ''name''] = Inr StringType \<and>
   FromValue testEnv StringType (Boxed (Value tfString (PString ''other''))) [AttributeName ''name'']
     = (Some (Value tfString (PString ''other'')), []) \<and>
   SetAttribute Transform testEnv
      ((testState StringType)\<lparr>Raw := Value (tfObject [(''name'', tfString)]) Null\<rparr>)
      [AttributeName ''name''] (Boxed (Value tfString (PString ''other''))) =
     Returned ((testState StringType)\<lparr>Raw := Value (tfObject [(''name'', tfString)]) Null\<rparr>, []) \<and>
   GetAttribute testEnv
      ((testState StringType)\<lparr>Raw := Value (tfObject [(''name'', tfString)]) Null\<rparr>)
      [AttributeName ''name''] None =
     (None, [missingValueDiagnostic [AttributeName ''name'']]) \<and>
   AttributeTypeAtPath (Schema testStateTags) [AttributeName ''tags'', ElementKeyInt 5]
     = Inr StringTypeWithValidateWarning \<and>
   SetAttribute Transform testEnv testStateTags [AttributeName ''tags'', ElementKeyInt 5]
      (Boxed (Value tfString (PString ''c''))) =
     Returned (testStateTags, []) \<and>
   GetAttribute testEnv testStateTags [AttributeName ''tags'', ElementKeyInt 5] None =
     (None, [NewAttributeErrorDiagnostic [AttributeName ''tags'', ElementKeyInt 5] ''State Read Error''
               (TextError readAttributeText (StillRemains [ElementKeyInt 5] ErrInvalidStep))])"
proof -
  have null: "SetAttribute Transform testEnv
      ((testState StringType)\<lparr>Raw := Value (tfObject [(''name'', tfString)]) Null\<rparr>)
      [AttributeName ''name''] (Boxed (Value tfString (PString ''other''))) =
     Returned ((testState StringType)\<lparr>Raw := Value (tfObject [(''name'', tfString)]) Null\<rparr>, [])"
    by (simp add: testState_def testSchema_def testEnv_def StringType_def SetAttribute_def
          Transform_def transform_node_def transformFunc_def IsNull_def Append_def)
  have null_get: "GetAttribute testEnv
      ((testState StringType)\<lparr>Raw := Value (tfObject [(''name'', tfString)]) Null\<rparr>)
      [AttributeName ''name''] None =
     (None, [missingValueDiagnostic [AttributeName ''name'']])"
    by (simp add: testState_def testSchema_def StringType_def IsNull_def Append_def
          GetAttribute_def getAttributeValue_def AddAttributeError_def missingValueDiagnostic_def)
  have tr: "Transform (Raw testStateTags)
      (transformFunc StringTypeWithValidateWarning [AttributeName ''tags'', ElementKeyInt 5]
         (PString ''c'')) [] = Returned ((Raw testStateTags, None), [])"
    by (simp add: Transform_def testStateTags_def testRawTags_def transform_node_def
          transformFunc_def IsNull_def IsKnown_def)
  have miss: "SetAttribute Transform testEnv testStateTags [AttributeName ''tags'', ElementKeyInt 5]
      (Boxed (Value tfString (PString ''c''))) = Returned (testStateTags, [])"
    using tr
    by (simp add: SetAttribute_def testEnv_def Append_def testStateTags_def testSchemaTags_def)
  have miss_get: "GetAttribute testEnv testStateTags [AttributeName ''tags'', ElementKeyInt 5] None =
     (None, [NewAttributeErrorDiagnostic [AttributeName ''tags'', ElementKeyInt 5] ''State Read Error''
               (TextError readAttributeText (StillRemains [ElementKeyInt 5] ErrInvalidStep))])"
    by (simp add: GetAttribute_def getAttributeValue_def terraformValueAtPath_def testStateTags_def
          testSchemaTags_def testRawTags_def IsNull_def IsKnown_def AddAttributeError_def Append_def
          NewAttributeErrorDiagnostic_def)
  from null null_get miss miss_get show ?thesis
    by (simp add: testState_def testSchema_def testEnv_def testStateTags_def testSchemaTags_def)
qed

text \<open>
  C6. When \<^verbatim>\<open>getAttributeValue\<close> gives a value without an error, \<^verbatim>\<open>GetAttribute\<close>
  returns the target as \<^verbatim>\<open>ValueAs\<close> left it and, after the diagnostics of the
  lookup, every diagnostic of \<^verbatim>\<open>ValueAs\<close> in order, each carrying the requested
  path and its own severity, summary and detail. In particular, when \<^verbatim>\<open>ValueAs\<close>
  answers an incompatible target with one Error diagnostic and leaves the target as it
  was, \<^verbatim>\<open>GetAttribute\<close> returns the untouched target and exactly one Error
  diagnostic with the requested path.
\<close>

theorem GetAttribute_reattributes:
  assumes "getAttributeValue s p = (Some av, d)"
    and "\<not> HasError d"
    and "ValueAs env av target = (target', vd)"
  shows "GetAttribute env s p target = (target', d @ map (reattribute p) vd) \<and>
         (\<forall>x \<in> set vd. Path (reattribute p x) = Some p \<and>
              Severity (reattribute p x) = Severity x \<and>
              Summary (reattribute p x) = Summary x \<and>
              Detail (reattribute p x) = Detail x) \<and>
         (\<forall>e. d = [] \<and> vd = [e] \<and> Severity e = SeverityError \<and> target' = target \<longrightarrow>
            (\<exists>e'. GetAttribute env s p target = (target, [e']) \<and>
                  Severity e' = SeverityError \<and> Path e' = Some p \<and>
                  Summary e' = Summary e \<and> Detail e' = Detail e))"
proof -
  have 1: "GetAttribute env s p target = (target', d @ map (reattribute p) vd)"
    using assms by (simp add: GetAttribute_def Append_def)
  have 2: "Path (reattribute p x) = Some p \<and> Severity (reattribute p x) = Severity x \<and>
        Summary (reattribute p x) = Summary x \<and> Detail (reattribute p x) = Detail x" for x
    by (cases "Severity x")
       (simp_all add: reattribute_def NewAttributeErrorDiagnostic_def NewAttributeWarningDiagnostic_def)
  from 1 2 show ?thesis by auto
qed

theorem GetAttribute_reattributes_witness:
  "GetAttribute testEnvIncompatible (testState StringType) [AttributeName ''name''] None =
     (None, [NewAttributeErrorDiagnostic [AttributeName ''name''] ''Value Conversion Error''
               (Text ''cannot unmarshal tftypes.String into *bool, expected boolean'')])"
proof -
  let ?p = "[AttributeName ''name'']"
  let ?v = "Value tfString (PString ''namevalue'')"
  let ?e = "NewErrorDiagnostic ''Value Conversion Error''
              (Text ''cannot unmarshal tftypes.String into *bool, expected boolean'')"
  have a: "getAttributeValue (testState StringType) ?p = (Some ?v, [])"
    by (simp add: getAttributeValue_def terraformValueAtPath_def testState_def testSchema_def
          testRaw_def StringType_def IsNull_def IsKnown_def)
  have b: "\<not> HasError []" by simp
  have c: "ValueAs testEnvIncompatible ?v None = (None, [?e])"
    by (simp add: testEnvIncompatible_def)
  from GetAttribute_reattributes [OF a b c]
  show ?thesis
    by (simp add: reattribute_def NewErrorDiagnostic_def NewAttributeErrorDiagnostic_def)
qed

text \<open>
  C7. \<^verbatim>\<open>Set\<close> with a non-nil value is atomic. When \<^verbatim>\<open>FromValue\<close> reports an
  error, the state is returned as it was with the diagnostics of \<^verbatim>\<open>FromValue\<close>;
  when \<^verbatim>\<open>ToTerraformValue\<close> fails, the state is returned as it was with one more
  diagnostic, of Error severity; when both succeed and the payload fits the wire type
  of the schema, the tree is replaced by the whole new value. Whenever \<^verbatim>\<open>Set\<close>
  returns, either its diagnostics have an error and the state is the old one, or they
  have none and the state differs from the old one in \<open>Raw\<close> alone, which is the
  whole new value.
\<close>

theorem Set_atomic:
  assumes "val \<noteq> NilInterface"
    and "FromValue env (AttributeType (Schema s)) val [] = (nv, fd)"
  shows "(HasError fd \<longrightarrow> Set env s val = Returned (s, fd)) \<and>
         (\<forall>av err. \<not> HasError fd \<and> nv = Some av \<and> ToTerraformValue env av = Inl err \<longrightarrow>
            (\<exists>d. Set env s val = Returned (s, fd @ [d]) \<and> Severity d = SeverityError)) \<and>
         (\<forall>av pl. \<not> HasError fd \<and> nv = Some av \<and> ToTerraformValue env av = Inr pl \<and>
              fits (TerraformType (AttributeType (Schema s))) pl \<longrightarrow>
            Set env s val =
              Returned (s\<lparr>Raw := Value (TerraformType (AttributeType (Schema s))) pl\<rparr>, fd)) \<and>
         (\<forall>s' d. Set env s val = Returned (s', d) \<longrightarrow>
            (if HasError d then s' = s
             else \<exists>av pl. nv = Some av \<and> ToTerraformValue env av = Inr pl \<and>
                  s' = s\<lparr>Raw := Value (TerraformType (AttributeType (Schema s))) pl\<rparr>))"
  using assms
  by (auto simp: Set_def AddError_def Append_def NewErrorDiagnostic_def HasError_append
        NewValue_def newValue_def
        split: option.splits sum.splits outcome.splits if_splits)

theorem Set_atomic_witness:
  "Set testEnv (testState StringType)
      (Boxed (Value (tfObject [(''name'', tfString)]) (PMap [(''name'', Value tfString (PString ''other''))]))) =
     Returned ((testState StringType)\<lparr>Raw := Value (tfObject [(''name'', tfString)])
        (PMap [(''name'', Value tfString (PString ''other''))])\<rparr>, []) \<and>
   Set testEnv (testState StringType) (NilPointer ''*testStateData'') =
     Returned (testState StringType,
       [NewAttributeErrorDiagnostic [] ''Value Conversion Error'' (Text ''cannot use a nil value'')])"
proof -
  let ?v = "Value (tfObject [(''name'', tfString)]) (PMap [(''name'', Value tfString (PString ''other''))])"
  have a: "FromValue testEnv (AttributeType (Schema (testState StringType))) (Boxed ?v) [] = (Some ?v, [])"
    by (simp add: testEnv_def)
  have b: "FromValue testEnv (AttributeType (Schema (testState StringType))) (NilPointer ''*testStateData'') []
       = (None, [NewAttributeErrorDiagnostic [] ''Value Conversion Error'' (Text ''cannot use a nil value'')])"
    by (simp add: testEnv_def)
  have c: "ToTerraformValue testEnv ?v = Inr (PMap [(''name'', Value tfString (PString ''other''))])"
    by (simp add: testEnv_def)
  have d: "fits (TerraformType (AttributeType (Schema (testState StringType))))
      (PMap [(''name'', Value tfString (PString ''other''))])"
    by (simp add: testState_def testSchema_def testObjectType_def StringType_def)
  have e: "TerraformType (AttributeType (Schema (testState StringType))) = tfObject [(''name'', tfString)]"
    by (simp add: testState_def testSchema_def testObjectType_def StringType_def)
  from Set_atomic [OF _ a] c d e have 1: "Set testEnv (testState StringType) (Boxed ?v) =
     Returned ((testState StringType)\<lparr>Raw := ?v\<rparr>, [])"
    by simp
  from Set_atomic [OF _ b] have 2: "Set testEnv (testState StringType) (NilPointer ''*testStateData'') =
     Returned (testState StringType,
       [NewAttributeErrorDiagnostic [] ''Value Conversion Error'' (Text ''cannot use a nil value'')])"
    by (simp add: NewAttributeErrorDiagnostic_def)
  from 1 2 show ?thesis by simp
qed

text \<open>
  C8. From any state, \<^verbatim>\<open>RemoveResource\<close> returns without a panic and replaces the
  tree by the null value of the schema's wire type; the schema is kept, the new tree is
  a well-formed value, and the operation has no diagnostics to return.
\<close>

theorem RemoveResource_root_null:
  "\<exists>s'. RemoveResource s = Returned s' \<and>
        s' = s\<lparr>Raw := Value (Schema_TerraformType (Schema s)) Null\<rparr> \<and>
        IsNull (Raw s') \<and> Type (Raw s') = Schema_TerraformType (Schema s) \<and>
        wf_Value (Raw s') \<and> Schema s' = Schema s"
  by (simp add: RemoveResource_def NewValue_Null IsNull_def)

theorem RemoveResource_root_null_witness:
  "RemoveResource (testState StringType) =
     Returned \<lparr>Raw = Value (tfObject [(''name'', tfString)]) Null, Schema = testSchema StringType\<rparr>"
  using RemoveResource_root_null [of "testState StringType"]
  by (simp add: testState_def testSchema_def StringType_def)

text \<open>
  C9. The rejection of \<^verbatim>\<open>Set\<close> is for the nil interface only. A nil pointer of a
  pointer type is a non-nil interface value: \<^verbatim>\<open>Set\<close> passes it on to
  \<^verbatim>\<open>FromValue\<close>. When \<^verbatim>\<open>FromValue\<close> reports an error, \<^verbatim>\<open>Set\<close> returns exactly
  the diagnostics of \<^verbatim>\<open>FromValue\<close>; and whenever \<^verbatim>\<open>Set\<close> returns, its diagnostics
  start with those of \<^verbatim>\<open>FromValue\<close> and hold the diagnostic "cannot set nil as entire
  state" only if \<^verbatim>\<open>FromValue\<close> itself produced it.
\<close>

theorem Set_nil_pointer_passed_on:
  assumes "FromValue env (AttributeType (Schema s)) (NilPointer tn) [] = (nv, fd)"
  shows "(HasError fd \<longrightarrow> Set env s (NilPointer tn) = Returned (s, fd)) \<and>
         (\<forall>s' d. Set env s (NilPointer tn) = Returned (s', d) \<longrightarrow>
            prefix fd d \<and> (nilStateDiagnostic \<in> set d \<longrightarrow> nilStateDiagnostic \<in> set fd))"
  using assms
  by (auto simp: Set_def AddError_def Append_def nilStateDiagnostic_def NewErrorDiagnostic_def
           split: option.splits sum.splits outcome.splits)

theorem Set_nil_pointer_passed_on_witness:
  "Set testEnv (testState StringType) (NilPointer ''*testStateData'') =
     Returned (testState StringType,
       [NewAttributeErrorDiagnostic [] ''Value Conversion Error'' (Text ''cannot use a nil value'')]) \<and>
   nilStateDiagnostic \<notin> set [NewAttributeErrorDiagnostic [] ''Value Conversion Error'' (Text ''cannot use a nil value'')]"
  using Set_nil_pointer_passed_on [of testEnv "testState StringType" "''*testStateData''" None
     "[NewAttributeErrorDiagnostic [] ''Value Conversion Error'' (Text ''cannot use a nil value'')]"]
  by (simp add: testEnv_def NewAttributeErrorDiagnostic_def nilStateDiagnostic_def NewErrorDiagnostic_def)

text \<open>
  C10. When the transform called by \<^verbatim>\<open>SetAttribute\<close> returns a tree with an error,
  \<^verbatim>\<open>SetAttribute\<close> returns the state with that tree as \<open>Raw\<close>, and the diagnostics
  of the transform followed by one "State Write Error" for the error: the tree of
  before the call is not restored. The statement holds for every function in the place
  of \<^verbatim>\<open>tftypes.Transform\<close>.
\<close>

theorem SetAttribute_assigns_on_transform_error:
  assumes "AttributeTypeAtPath (Schema s) p = Inr attrType"
    and "FromValue env attrType val p = (Some nv, fd)"
    and "\<not> HasError fd"
    and "ToTerraformValue env nv = Inr pl"
    and "Transform' (Raw s) (transformFunc attrType p pl) fd = Returned ((raw', Some err), d')"
  shows "SetAttribute Transform' env s p val =
           Returned (s\<lparr>Raw := raw'\<rparr>,
             d' @ [NewAttributeErrorDiagnostic p ''State Write Error''
                     (TextError writeAttributeText err)])"
  using assms
  by (simp add: SetAttribute_def Append_def AddAttributeError_def)

theorem SetAttribute_assigns_on_transform_error_witness:
  "SetAttribute failingTransform testEnv (testState StringType) [AttributeName ''name'']
      (Boxed (Value tfString (PString ''other''))) =
     Returned ((testState StringType)\<lparr>Raw := Value tfString Unknown\<rparr>,
       [NewAttributeErrorDiagnostic [AttributeName ''name''] ''State Write Error''
          (TextError writeAttributeText (New ''transform failed''))]) \<and>
   Raw (testState StringType) \<noteq> Value tfString Unknown"
proof -
  have a: "AttributeTypeAtPath (Schema (testState StringType)) [AttributeName ''name''] = Inr StringType"
    by (simp add: testState_def testSchema_def)
  have b: "FromValue testEnv StringType (Boxed (Value tfString (PString ''other''))) [AttributeName ''name'']
      = (Some (Value tfString (PString ''other'')), [])"
    by (simp add: testEnv_def)
  have c: "ToTerraformValue testEnv (Value tfString (PString ''other'')) = Inr (PString ''other'')"
    by (simp add: testEnv_def)
  have d: "failingTransform (Raw (testState StringType))
      (transformFunc StringType [AttributeName ''name''] (PString ''other'')) [] =
      Returned ((Value tfString Unknown, Some (New ''transform failed'')), [])"
    by (simp add: failingTransform_def)
  have e: "Raw (testState StringType) \<noteq> Value tfString Unknown"
    by (simp add: testState_def testRaw_def)
  have h: "\<not> HasError []" by simp
  from SetAttribute_assigns_on_transform_error [where Transform' = failingTransform, OF a b h c d] e
  show ?thesis by simp
qed

end
